theory Spec2Isabelle
  imports Main
begin

section \<open>Syntax trees (parser/nodes.ts, parser/scanner.ts)\<close>

text \<open>
  Modelled from the spec: the node types of \<^verbatim>\<open>parser/nodes.ts\<close> and the token kinds of
  \<^verbatim>\<open>parser/scanner.ts\<close> are not among the sources. The kinds are those of the spec's data
  model (section 3); the fields are the ones \<^verbatim>\<open>validation.ts\<close> and \<^verbatim>\<open>utils.ts\<close> read:
  \<^verbatim>\<open>qualifier.value\<close> and \<^verbatim>\<open>name.value\<close> are strings, \<^verbatim>\<open>open\<close> and \<^verbatim>\<open>close\<close> are optional,
  \<^verbatim>\<open>nodes\<close> is a sequence. A node is an object with an identity of its own; the model
  keeps the source span (start, end offset) of each node, which tells two occurrences of
  the same text apart.
\<close>

type_synonym span = "nat \<times> nat"

datatype TokenType = TokenType_OR | TokenType_Other string

datatype NodeType =
    NodeType_Any
  | NodeType_Compare
  | NodeType_Date
  | NodeType_Literal
  | NodeType_Missing
  | NodeType_Number
  | NodeType_QualifiedValue
  | NodeType_Query
  | NodeType_Range
  | NodeType_SortBy
  | NodeType_VariableDefinition
  | NodeType_VariableName

text \<open>The payload of a Literal and of a VariableName node: span and \<^verbatim>\<open>value\<close>.\<close>

type_synonym Literal = "span \<times> string"
type_synonym VariableName = "span \<times> string"

datatype Node =
    AnyNode span TokenType
  | CompareNode span string Node
  | DateNode span
  | LiteralNode Literal
  | MissingNode span string
  | NumberNode span
  | QualifiedValueNode span Literal Node
  | QueryNode span "Node list"
  | RangeNode span "Node option" "Node option"
  | SortByNode span Node
  | VariableDefinitionNode span VariableName Node
  | VariableNameNode VariableName

text \<open>The root: the top-level nodes and the raw source text.\<close>

datatype QueryDocumentNode = QueryDocumentNode (nodes: "Node list") (doc_text: string)

fun node_type :: "Node \<Rightarrow> NodeType" where
  "node_type (AnyNode _ _) = NodeType_Any"
| "node_type (CompareNode _ _ _) = NodeType_Compare"
| "node_type (DateNode _) = NodeType_Date"
| "node_type (LiteralNode _) = NodeType_Literal"
| "node_type (MissingNode _ _) = NodeType_Missing"
| "node_type (NumberNode _) = NodeType_Number"
| "node_type (QualifiedValueNode _ _ _) = NodeType_QualifiedValue"
| "node_type (QueryNode _ _) = NodeType_Query"
| "node_type (RangeNode _ _ _) = NodeType_Range"
| "node_type (SortByNode _ _) = NodeType_SortBy"
| "node_type (VariableDefinitionNode _ _ _) = NodeType_VariableDefinition"
| "node_type (VariableNameNode _) = NodeType_VariableName"

text \<open>
  Modelled from the spec: \<^verbatim>\<open>Utils.walk\<close> (parser/nodes.ts) is not among the sources. Spec 4.1:
  the callback is invoked once per node of the subtree, the root included, in pre-order and
  without filtering. The callbacks of this repository never change the tree and return
  nothing (a bare \<^verbatim>\<open>return\<close> and the end of the callback both give \<^verbatim>\<open>undefined\<close>), so a
  walk is the list of the nodes in visiting order and a callback is folded over it.
\<close>

fun walk :: "Node \<Rightarrow> Node list" where
  "walk (CompareNode s c v) = CompareNode s c v # walk v"
| "walk (QualifiedValueNode s q v) = QualifiedValueNode s q v # LiteralNode q # walk v"
| "walk (QueryNode s ns) = QueryNode s ns # concat (map walk ns)"
| "walk (RangeNode s opn cls) =
     RangeNode s opn cls #
       (case opn of None \<Rightarrow> [] | Some n \<Rightarrow> walk n) @ (case cls of None \<Rightarrow> [] | Some n \<Rightarrow> walk n)"
| "walk (SortByNode s c) = SortByNode s c # walk c"
| "walk (VariableDefinitionNode s n v) =
     VariableDefinitionNode s n v # VariableNameNode n # walk v"
| "walk (AnyNode s t) = [AnyNode s t]"
| "walk (DateNode s) = [DateNode s]"
| "walk (LiteralNode l) = [LiteralNode l]"
| "walk (MissingNode s m) = [MissingNode s m]"
| "walk (NumberNode s) = [NumberNode s]"
| "walk (VariableNameNode n) = [VariableNameNode n]"

text \<open>
  The walk of a document visits the root first; no callback of this repository does
  anything at the root (its kind is none of those they test), so the model lists the nodes
  below it.
\<close>

definition walk_document :: "QueryDocumentNode \<Rightarrow> Node list" where
  "walk_document doc = concat (map walk (nodes doc))"

text \<open>The number of nodes of a document tree, the root included.\<close>

definition document_size :: "QueryDocumentNode \<Rightarrow> nat" where
  "document_size doc = Suc (length (walk_document doc))"

section \<open>Symbols (parser/symbols.ts)\<close>

text \<open>
  Modelled from the spec: \<^verbatim>\<open>parser/symbols.ts\<close> is not among the sources. \<^verbatim>\<open>ValueType\<close> is a
  string enumeration (its members are interpolated into messages); a Static symbol's
  \<^verbatim>\<open>value\<close> is a scalar type or an ordered list of value sets (a set is the list of its
  members in iteration order); a User symbol has a type and a literal value. The symbol
  table is taken as its lookup function \<^verbatim>\<open>getFirst\<close>.
\<close>

type_synonym ValueType = string

definition ValueType_Date :: ValueType where
  "ValueType_Date = ''date''"

definition ValueType_Number :: ValueType where
  "ValueType_Number = ''number''"

datatype StaticValue = Scalar ValueType | ValueSets "string list list"

datatype Symbol = StaticSymbol StaticValue | UserSymbol ValueType string

type_synonym SymbolTable = "string \<Rightarrow> Symbol option"

section \<open>Validation (parser/validation.ts)\<close>

datatype ValidationError =
  ValidationError (node: Node) (message: string) (conflictNode: "Node option")

definition quote :: string where
  "quote = [CHR 0x27]"

fun join :: "string \<Rightarrow> string list \<Rightarrow> string" where
  "join sep [] = []"
| "join sep [x] = x"
| "join sep (x # y # ys) = x @ sep @ join sep (y # ys)"

fun isNumberOrDateLike :: "Node \<Rightarrow> NodeType \<Rightarrow> bool" where
  "isNumberOrDateLike nd what =
     (if node_type nd = what then True
      else if (case nd of CompareNode _ _ v \<Rightarrow> node_type v = what | _ \<Rightarrow> False) then True
      else if (case nd of
                 RangeNode _ opn cls \<Rightarrow>
                   map_option node_type opn = Some what \<or> map_option node_type cls = Some what
               | _ \<Rightarrow> False) then True
      else False)"

type_synonym mutual_map = "string \<rightharpoonup> Node"

text \<open>Lines 58 to 62: every other member of the set is mapped to the current node.\<close>

fun register_candidates :: "string list \<Rightarrow> string \<Rightarrow> Node \<Rightarrow> mutual_map \<Rightarrow> mutual_map" where
  "register_candidates [] value nd mutual = mutual"
| "register_candidates (candidate # rest) value nd mutual =
     register_candidates rest value nd
       (if candidate \<noteq> value then mutual(candidate \<mapsto> nd) else mutual)"

text \<open>Lines 54 to 67: the scan stops at the first set that has the value; the result is \<^verbatim>\<open>found\<close>.\<close>

fun scan_sets :: "string list list \<Rightarrow> string \<Rightarrow> Node \<Rightarrow> mutual_map \<Rightarrow> bool \<times> mutual_map" where
  "scan_sets [] value nd mutual = (False, mutual)"
| "scan_sets (s # sets) value nd mutual =
     (if value \<in> set s then (True, register_candidates s value nd mutual)
      else scan_sets sets value nd mutual)"

definition unknown_qualifier :: "Literal \<Rightarrow> ValidationError" where
  "unknown_qualifier q =
     ValidationError (LiteralNode q) (''Unknown qualifier: '' @ quote @ snd q @ quote) None"

definition unknown_value :: "Node \<Rightarrow> string list list \<Rightarrow> ValidationError" where
  "unknown_value v sets =
     ValidationError v
       (''Unknown value, must be one of: '' @ join '', '' (map (join '', '') sets)) None"

text \<open>Line 48: the text of a literal value, the empty string for any other value.\<close>

fun literal_text :: "Node \<Rightarrow> string" where
  "literal_text (LiteralNode l) = snd l"
| "literal_text _ = []"

text \<open>
  Lines 47 to 71, the qualifier with value sets: the new map and the errors pushed.
  \<^verbatim>\<open>nd\<close> is the QualifiedValue node, \<^verbatim>\<open>v\<close> its value.
\<close>

definition check_value_sets ::
  "string list list \<Rightarrow> Node \<Rightarrow> Node \<Rightarrow> mutual_map \<Rightarrow> mutual_map \<times> ValidationError list" where
  "check_value_sets sets nd v mutual =
     (let value = literal_text v in
      case mutual value of
        Some c \<Rightarrow>
          (mutual, [ValidationError nd ''Conflicts with mutual exclusive expression'' (Some c)])
      | None \<Rightarrow>
          (case scan_sets sets value nd mutual of
             (True, mutual') \<Rightarrow> (mutual', [])
           | (False, mutual') \<Rightarrow> (mutual', [unknown_value v sets])))"

text \<open>Lines 72 to 83, the qualifier with a scalar type \<^verbatim>\<open>t\<close>: the errors pushed.\<close>

fun check_scalar :: "SymbolTable \<Rightarrow> ValueType \<Rightarrow> Node \<Rightarrow> ValidationError list" where
  "check_scalar symbols t (VariableNameNode x) =
     (case symbols (snd x) of
        Some (UserSymbol ty _) \<Rightarrow>
          if ty \<noteq> t
          then [ValidationError (VariableNameNode x) (''Invalid value, expected '' @ t) None]
          else []
      | _ \<Rightarrow> [ValidationError (VariableNameNode x) (''Invalid value, expected '' @ t) None])"
| "check_scalar symbols t v =
     (if t = ValueType_Date \<and> \<not> isNumberOrDateLike v NodeType_Date
      then [ValidationError v ''Invalid value, expected date'' None]
      else if t = ValueType_Number \<and> \<not> isNumberOrDateLike v NodeType_Number
      then [ValidationError v ''Invalid value, expected number'' None]
      else [])"

text \<open>
  The callback of \<^verbatim>\<open>validateQuery\<close> (lines 33 to 116) at one node: the new map
  \<^verbatim>\<open>mutual\<close> and the errors it pushes to the bucket. A node has one kind, so at most one
  of the tests of lines 38, 87, 96, 104 and 111 holds. \<^verbatim>\<open>sortValues\<close> is a constant of
  parser/symbols.ts, which is not among the sources, and is a parameter.
\<close>

fun validateQuery_node ::
  "string list \<Rightarrow> SymbolTable \<Rightarrow> Node \<Rightarrow> mutual_map \<Rightarrow> mutual_map \<times> ValidationError list" where
  "validateQuery_node sortValues symbols (QualifiedValueNode s q v) mutual =
     (case symbols (snd q) of
        None \<Rightarrow> (mutual, [unknown_qualifier q])
      | Some (UserSymbol _ _) \<Rightarrow> (mutual, [unknown_qualifier q])
      | Some (StaticSymbol (ValueSets sets)) \<Rightarrow>
          check_value_sets sets (QualifiedValueNode s q v) v mutual
      | Some (StaticSymbol (Scalar t)) \<Rightarrow> (mutual, check_scalar symbols t v))"
| "validateQuery_node sortValues symbols (VariableNameNode x) mutual =
     (case symbols (snd x) of
        Some (UserSymbol _ _) \<Rightarrow> (mutual, [])
      | _ \<Rightarrow> (mutual, [ValidationError (VariableNameNode x) ''Unknown variable'' None]))"
| "validateQuery_node sortValues symbols (RangeNode s opn cls) mutual =
     (case (opn, cls) of
        (Some a, Some b) \<Rightarrow>
          if node_type a \<noteq> node_type b
          then (mutual, [ValidationError (RangeNode s opn cls)
                  ''Range must start and end with equals types'' None])
          else (mutual, [])
      | _ \<Rightarrow> (mutual, []))"
| "validateQuery_node sortValues symbols (SortByNode s c) mutual =
     (case c of
        LiteralNode l \<Rightarrow>
          if snd l \<notin> set sortValues
          then (mutual, [ValidationError c
                  (''Unknown value, must be one of: '' @ join '', '' sortValues) None])
          else (mutual, [])
      | _ \<Rightarrow> (mutual, []))"
| "validateQuery_node sortValues symbols (MissingNode s m) mutual =
     (mutual, [ValidationError (MissingNode s m) m None])"
| "validateQuery_node sortValues symbols _ mutual = (mutual, [])"

text \<open>One step of the walk: the state is the map and the bucket.\<close>

definition validateQuery_visit ::
  "string list \<Rightarrow> SymbolTable \<Rightarrow> Node \<Rightarrow> mutual_map \<times> ValidationError list
    \<Rightarrow> mutual_map \<times> ValidationError list" where
  "validateQuery_visit sortValues symbols nd st =
     (case validateQuery_node sortValues symbols nd (fst st) of
        (mutual', errors) \<Rightarrow> (mutual', snd st @ errors))"

text \<open>\<^verbatim>\<open>validateQuery\<close>: a fresh map, the walk of the query, the bucket grown in place.\<close>

definition validateQuery ::
  "string list \<Rightarrow> Node \<Rightarrow> ValidationError list \<Rightarrow> SymbolTable \<Rightarrow> ValidationError list" where
  "validateQuery sortValues query bucket symbols =
     snd (fold (validateQuery_visit sortValues symbols) (walk query) (Map.empty, bucket))"

text \<open>
  The callback of \<^verbatim>\<open>validateVariableDefinition\<close> (lines 121 to 128) at one node: the
  errors it pushes. \<^verbatim>\<open>name\<close> is the name of the definition.
\<close>

fun validateVariableDefinition_node :: "VariableName \<Rightarrow> Node \<Rightarrow> ValidationError list" where
  "validateVariableDefinition_node name (AnyNode s t) =
     (if t = TokenType_OR
      then [ValidationError (AnyNode s t) ''OR is not supported when defining a variable'' None]
      else [])"
| "validateVariableDefinition_node name (VariableNameNode x) =
     (if snd x = snd name
      then [ValidationError (VariableNameNode x)
              ''Cannot reference a variable from its definition'' None]
      else [])"
| "validateVariableDefinition_node name _ = []"

text \<open>\<^verbatim>\<open>validateVariableDefinition\<close>, given the name and the value of the definition node.\<close>

definition validateVariableDefinition ::
  "VariableName \<Rightarrow> Node \<Rightarrow> ValidationError list \<Rightarrow> ValidationError list" where
  "validateVariableDefinition name v bucket =
     fold (\<lambda>nd bucket. bucket @ validateVariableDefinition_node name nd) (walk v) bucket"

text \<open>The callback of \<^verbatim>\<open>validateQueryDocument\<close> (lines 16 to 25) at one node.\<close>

fun validateQueryDocument_visit ::
  "string list \<Rightarrow> SymbolTable \<Rightarrow> Node \<Rightarrow> ValidationError list \<Rightarrow> ValidationError list" where
  "validateQueryDocument_visit sortValues symbols (QueryNode s ns) result =
     validateQuery sortValues (QueryNode s ns) result symbols"
| "validateQueryDocument_visit sortValues symbols (VariableDefinitionNode s n v) result =
     validateVariableDefinition n v result"
| "validateQueryDocument_visit sortValues symbols _ result = result"

definition validateQueryDocument ::
  "string list \<Rightarrow> QueryDocumentNode \<Rightarrow> SymbolTable \<Rightarrow> ValidationError list" where
  "validateQueryDocument sortValues doc symbols =
     fold (validateQueryDocument_visit sortValues symbols) (walk_document doc) []"

section \<open>Repository extraction (utils.ts)\<close>

datatype RepoInfo = RepoInfo (owner: string) (repo: string)

text \<open>
  The \<^verbatim>\<open>value\<close> field of a symbol, as \<^verbatim>\<open>getFirst(name)?.value\<close> reads it: a string (the
  members of \<^verbatim>\<open>ValueType\<close> are strings) or the array of value sets.
\<close>

datatype SymbolValue = StringValue string | SetsValue "string list list"

fun symbol_value :: "Symbol \<Rightarrow> SymbolValue" where
  "symbol_value (StaticSymbol (Scalar t)) = StringValue t"
| "symbol_value (StaticSymbol (ValueSets sets)) = SetsValue sets"
| "symbol_value (UserSymbol _ v) = StringValue v"

text \<open>
  \<^verbatim>\<open>Utils.print\<close> (parser/nodes.ts) is not among the sources and is a parameter: the node,
  the text of the document, and the lookup of a variable's value.
\<close>

type_synonym printer = "Node \<Rightarrow> string \<Rightarrow> (string \<Rightarrow> SymbolValue option) \<Rightarrow> string"

text \<open>Line 35: the empty string is falsy, an array is truthy.\<close>

fun truthy :: "SymbolValue \<Rightarrow> bool" where
  "truthy (StringValue s) = (s \<noteq> [])"
| "truthy (SetsValue _) = True"

text \<open>
  \<^verbatim>\<open>String.prototype.indexOf\<close> for a one-character search string: -1 when absent. The
  separator is an ASCII character, so the split is the same on the code units of the
  source's strings and on the bytes of a \<^typ>\<open>string\<close>.
\<close>

fun indexOf :: "string \<Rightarrow> char \<Rightarrow> int" where
  "indexOf [] c = - 1"
| "indexOf (x # xs) c =
     (if x = c then 0 else (let i = indexOf xs c in if i < 0 then - 1 else i + 1))"

text \<open>\<^verbatim>\<open>substring(start, end)\<close> and \<^verbatim>\<open>substring(start)\<close> for indices that are not negative.\<close>

definition substring :: "string \<Rightarrow> nat \<Rightarrow> nat \<Rightarrow> string" where
  "substring s start end' =
     (let a = min start (length s); b = min end' (length s)
      in take (max a b - min a b) (drop (min a b) s))"

definition substring_from :: "string \<Rightarrow> nat \<Rightarrow> string" where
  "substring_from s start = drop start s"

text \<open>Lines 28 to 33: the value of a matching qualifier.\<close>

fun resolve_value :: "printer \<Rightarrow> string \<Rightarrow> SymbolTable \<Rightarrow> Node \<Rightarrow> SymbolValue option" where
  "resolve_value print source symbols (VariableNameNode x) = map_option symbol_value (symbols (snd x))"
| "resolve_value print source symbols v = Some (StringValue (print v source (\<lambda>_. None)))"

text \<open>The callback of lines 20 to 38 at one node: the values pushed to \<^verbatim>\<open>repoStrings\<close>.\<close>

fun getRepoInfos_node :: "printer \<Rightarrow> string \<Rightarrow> SymbolTable \<Rightarrow> Node \<Rightarrow> SymbolValue list" where
  "getRepoInfos_node print source symbols (QualifiedValueNode s q v) =
     (if snd q \<noteq> ''repo'' then []
      else case resolve_value print source symbols v of
             None \<Rightarrow> []
           | Some value \<Rightarrow> if truthy value then [value] else [])"
| "getRepoInfos_node print source symbols _ = []"

text \<open>
  The loop of lines 40 to 47. On an array \<^verbatim>\<open>indexOf('/')\<close> is the array's own method and
  gives -1, as no element is the string \<^verbatim>\<open>'/'\<close>.
\<close>

fun getRepoInfos_yield :: "SymbolValue list \<Rightarrow> RepoInfo list" where
  "getRepoInfos_yield [] = []"
| "getRepoInfos_yield (SetsValue _ # rest) = getRepoInfos_yield rest"
| "getRepoInfos_yield (StringValue string # rest) =
     (let idx = indexOf string (CHR ''/'') in
      if idx > 0
      then RepoInfo (substring string 0 (nat idx)) (substring_from string (nat (idx + 1)))
             # getRepoInfos_yield rest
      else getRepoInfos_yield rest)"

text \<open>
  \<^verbatim>\<open>getRepoInfos\<close>: the values the generator yields, in order; \<^verbatim>\<open>symbols\<close> stands for
  \<^verbatim>\<open>project.symbols\<close>. The result of the call of \<^verbatim>\<open>Utils.print\<close> on line 16 is not used.
\<close>

definition getRepoInfos :: "printer \<Rightarrow> QueryDocumentNode \<Rightarrow> SymbolTable \<Rightarrow> RepoInfo list" where
  "getRepoInfos print doc symbols =
     getRepoInfos_yield
       (fold (\<lambda>nd repoStrings. repoStrings @ getRepoInfos_node print (doc_text doc) symbols nd)
          (walk_document doc) [])"

text \<open>The extraction in the words of the specification.\<close>

definition split_repo :: "string \<Rightarrow> RepoInfo option" where
  "split_repo str =
     (let left = takeWhile (\<lambda>c. c \<noteq> CHR ''/'') str;
          right = drop 1 (dropWhile (\<lambda>c. c \<noteq> CHR ''/'') str)
      in if CHR ''/'' \<in> set str \<and> left \<noteq> [] then Some (RepoInfo left right) else None)"

fun repo_string :: "printer \<Rightarrow> string \<Rightarrow> SymbolTable \<Rightarrow> Node \<Rightarrow> string option" where
  "repo_string print source symbols (QualifiedValueNode s q v) =
     (if snd q = ''repo''
      then (case resolve_value print source symbols v of
              Some (StringValue str) \<Rightarrow> Some str
            | _ \<Rightarrow> None)
      else None)"
| "repo_string print source symbols _ = None"

definition getRepoInfos_spec :: "printer \<Rightarrow> QueryDocumentNode \<Rightarrow> SymbolTable \<Rightarrow> RepoInfo list" where
  "getRepoInfos_spec print doc symbols =
     List.map_filter split_repo
       (List.map_filter (repo_string print (doc_text doc) symbols) (walk_document doc))"


section \<open>Notions used in the statements\<close>

text \<open>
  The value sets of one qualifier are pairwise disjoint, the invariant of the symbol
  table that the specification states ("an ordered list of disjoint string sets per
  qualifier").
\<close>

fun disjoint_sets :: "string list list \<Rightarrow> bool" where
  "disjoint_sets [] = True"
| "disjoint_sets (s # sets) = ((\<forall>t \<in> set sets. set s \<inter> set t = {}) \<and> disjoint_sets sets)"

text \<open>
  The first set, in order, that has a value: the set at which the scan of lines 55 to 67
  stops.
\<close>

fun first_set :: "string list list \<Rightarrow> string \<Rightarrow> string list option" where
  "first_set [] v = None"
| "first_set (s # sets) v = (if v \<in> set s then Some s else first_set sets v)"

text \<open>
  A node excludes a value \<^verbatim>\<open>k\<close>: it is a QualifiedValue whose qualifier has value sets, and
  \<^verbatim>\<open>k\<close> is another member of the first set that has the node's own value.
\<close>

fun excludes :: "SymbolTable \<Rightarrow> Node \<Rightarrow> string \<Rightarrow> bool" where
  "excludes symbols (QualifiedValueNode s q v) k =
     (case symbols (snd q) of
        Some (StaticSymbol (ValueSets sets)) \<Rightarrow>
          (case first_set sets (literal_text v) of
             Some S \<Rightarrow> k \<in> set S \<and> k \<noteq> literal_text v
           | None \<Rightarrow> False)
      | _ \<Rightarrow> False)"
| "excludes symbols _ k = False"

text \<open>The value text of a QualifiedValue node, as line 48 reads it.\<close>

fun value_text :: "Node \<Rightarrow> string option" where
  "value_text (QualifiedValueNode s q v) = Some (literal_text v)"
| "value_text _ = None"

text \<open>The declared type of the User symbol a name resolves to, if it resolves to one.\<close>

definition user_type :: "SymbolTable \<Rightarrow> string \<Rightarrow> ValueType option" where
  "user_type symbols x = (case symbols x of Some (UserSymbol ty _) \<Rightarrow> Some ty | _ \<Rightarrow> None)"

text \<open>
  Date-like and number-like values in the words of the specification: the node itself, the
  operand of a Compare, or one boundary of a Range is a Date (a Number).
\<close>

fun is_kind :: "NodeType \<Rightarrow> Node option \<Rightarrow> bool" where
  "is_kind what None = False"
| "is_kind what (Some n) = (node_type n = what)"

fun date_like :: "Node \<Rightarrow> bool" where
  "date_like (DateNode _) = True"
| "date_like (CompareNode _ _ v) = is_kind NodeType_Date (Some v)"
| "date_like (RangeNode _ opn cls) = (is_kind NodeType_Date opn \<or> is_kind NodeType_Date cls)"
| "date_like _ = False"

fun number_like :: "Node \<Rightarrow> bool" where
  "number_like (NumberNode _) = True"
| "number_like (CompareNode _ _ v) = is_kind NodeType_Number (Some v)"
| "number_like (RangeNode _ opn cls) = (is_kind NodeType_Number opn \<or> is_kind NodeType_Number cls)"
| "number_like _ = False"



text \<open>The nodes the definition checker reports, and the error it attaches to one.\<close>

fun is_OR_token :: "Node \<Rightarrow> bool" where
  "is_OR_token (AnyNode _ t) = (t = TokenType_OR)"
| "is_OR_token _ = False"

fun is_self_reference :: "VariableName \<Rightarrow> Node \<Rightarrow> bool" where
  "is_self_reference name (VariableNameNode x) = (snd x = snd name)"
| "is_self_reference name _ = False"

definition definition_error :: "Node \<Rightarrow> ValidationError" where
  "definition_error n =
     ValidationError n
       (if is_OR_token n then ''OR is not supported when defining a variable''
        else ''Cannot reference a variable from its definition'') None"

text \<open>A subtree without Query and VariableDefinition nodes.\<close>

definition plain :: "Node \<Rightarrow> bool" where
  "plain v = (\<forall>x \<in> set (walk v).
     node_type x \<noteq> NodeType_Query \<and> node_type x \<noteq> NodeType_VariableDefinition)"

text \<open>A node with no Query and no VariableDefinition node below it.\<close>

definition flat :: "Node \<Rightarrow> bool" where
  "flat n = (\<forall>x \<in> set (tl (walk n)).
     node_type x \<noteq> NodeType_Query \<and> node_type x \<noteq> NodeType_VariableDefinition)"

text \<open>
  The number of callback invocations of the inner walk that \<^verbatim>\<open>validateQueryDocument\<close> starts
  at a node: the subtree of a Query, the value subtree of a VariableDefinition.
\<close>

fun visits :: "Node \<Rightarrow> nat" where
  "visits (QueryNode s ns) = length (walk (QueryNode s ns))"
| "visits (VariableDefinitionNode s n v) = length (walk v)"
| "visits _ = 0"

definition document_visits :: "QueryDocumentNode \<Rightarrow> nat" where
  "document_visits doc = sum_list (map visits (walk_document doc))"

subsection \<open>Example inputs\<close>

definition example_sets :: "string list list" where
  "example_sets = [[''open'', ''closed''], [''pr'', ''issue'']]"

definition example_symbols :: SymbolTable where
  "example_symbols =
     [''is'' \<mapsto> StaticSymbol (ValueSets example_sets),
      ''created'' \<mapsto> StaticSymbol (Scalar ValueType_Date),
      ''comments'' \<mapsto> StaticSymbol (Scalar ValueType_Number),
      ''author'' \<mapsto> StaticSymbol (Scalar ''literal''),
      ''$d'' \<mapsto> UserSymbol ValueType_Date ''2020-01-01'',
      ''$r'' \<mapsto> UserSymbol ''literal'' ''acme/gadgets'']"

text \<open>The query \<^verbatim>\<open>is:pr is:issue\<close>.\<close>

definition is_pr :: Node where
  "is_pr = QualifiedValueNode (0, 5) ((0, 2), ''is'') (LiteralNode ((3, 5), ''pr''))"

definition is_issue :: Node where
  "is_issue = QualifiedValueNode (6, 14) ((6, 8), ''is'') (LiteralNode ((9, 14), ''issue''))"

text \<open>
  The query \<^verbatim>\<open>is:pr type:pr is:issue\<close>, with a qualifier \<^verbatim>\<open>type\<close> whose one value set is
  that of pull requests and issues too.
\<close>

definition example_symbols_type :: SymbolTable where
  "example_symbols_type = example_symbols(''type'' \<mapsto> StaticSymbol (ValueSets [[''pr'', ''issue'']]))"

definition type_pr :: Node where
  "type_pr = QualifiedValueNode (6, 13) ((6, 10), ''type'') (LiteralNode ((11, 13), ''pr''))"

definition is_issue_third :: Node where
  "is_issue_third = QualifiedValueNode (14, 22) ((14, 16), ''is'') (LiteralNode ((17, 22), ''issue''))"

text \<open>A qualifier \<^verbatim>\<open>q\<close> whose two value sets overlap.\<close>

definition example_symbols_overlap :: SymbolTable where
  "example_symbols_overlap = [''q'' \<mapsto> StaticSymbol (ValueSets [[''a'', ''c''], [''a'', ''b'']])]"

text \<open>The document \<^verbatim>\<open>$x=$x $x $x $x $x\<close>: a definition whose value is a query of five references.\<close>

definition self_reference_document :: QueryDocumentNode where
  "self_reference_document =
     QueryDocumentNode
       [VariableDefinitionNode (0, 17) ((0, 2), ''$x'')
          (QueryNode (3, 17)
             [VariableNameNode ((3, 5), ''$x''), VariableNameNode ((6, 8), ''$x''),
              VariableNameNode ((9, 11), ''$x''), VariableNameNode ((12, 14), ''$x''),
              VariableNameNode ((15, 17), ''$x'')])]
       ''$x=$x $x $x $x $x''"

text \<open>A printer for the examples: the text of a literal, nothing for any other node.\<close>

fun example_print :: printer where
  "example_print (LiteralNode l) source resolve = snd l"
| "example_print _ source resolve = []"

text \<open>The document \<^verbatim>\<open>repo:acme/widgets repo:/widgets repo:$r repo:noslash\<close>.\<close>

definition repo_document :: QueryDocumentNode where
  "repo_document =
     QueryDocumentNode
       [QueryNode (0, 51)
          [QualifiedValueNode (0, 17) ((0, 4), ''repo'') (LiteralNode ((5, 17), ''acme/widgets'')),
           QualifiedValueNode (18, 31) ((18, 22), ''repo'') (LiteralNode ((23, 31), ''/widgets'')),
           QualifiedValueNode (32, 39) ((32, 36), ''repo'') (VariableNameNode ((37, 39), ''$r'')),
           QualifiedValueNode (40, 52) ((40, 44), ''repo'') (LiteralNode ((45, 52), ''noslash''))]]
       ''repo:acme/widgets repo:/widgets repo:$r repo:noslash''"

section \<open>Properties of the walks\<close>

subsection \<open>The bucket only grows\<close>

lemma validateQuery_visit_pair:
  "validateQuery_visit sv sy n (m, b) =
     (fst (validateQuery_node sv sy n m), b @ snd (validateQuery_node sv sy n m))"
  by (simp add: validateQuery_visit_def split: prod.split)

lemma validateQuery_visit_state:
  "validateQuery_visit sv sy n st =
     (fst (validateQuery_node sv sy n (fst st)),
      snd st @ snd (validateQuery_node sv sy n (fst st)))"
  by (cases st) (simp add: validateQuery_visit_pair)

lemma validateQuery_fold_bucket:
  "fold (validateQuery_visit sv sy) ns (m, b) =
     (fst (fold (validateQuery_visit sv sy) ns (m, [])),
      b @ snd (fold (validateQuery_visit sv sy) ns (m, [])))"
proof (induction ns arbitrary: m b)
  case Nil
  show ?case by simp
next
  case (Cons n ns)
  let ?m = "fst (validateQuery_node sv sy n m)" and ?c = "snd (validateQuery_node sv sy n m)"
  show ?case
    using Cons.IH [of ?m "b @ ?c"] Cons.IH [of ?m ?c]
    by (simp add: validateQuery_visit_pair)
qed

lemma validateQuery_bucket:
  "validateQuery sv q b sy = b @ validateQuery sv q [] sy"
  unfolding validateQuery_def
  using validateQuery_fold_bucket [of sv sy "walk q" Map.empty b] by simp

lemma validateVariableDefinition_concat:
  "validateVariableDefinition name v b =
     b @ concat (map (validateVariableDefinition_node name) (walk v))"
proof -
  have "fold (\<lambda>nd bucket. bucket @ validateVariableDefinition_node name nd) ns b =
          b @ concat (map (validateVariableDefinition_node name) ns)" for ns
    by (induction ns arbitrary: b) simp_all
  then show ?thesis by (simp add: validateVariableDefinition_def)
qed

lemma validateQueryDocument_visit_bucket:
  "validateQueryDocument_visit sv sy n b = b @ validateQueryDocument_visit sv sy n []"
proof (cases n)
  case (QueryNode s ns)
  then show ?thesis using validateQuery_bucket [of sv "QueryNode s ns" b sy] by simp
next
  case (VariableDefinitionNode s x v)
  then show ?thesis by (simp add: validateVariableDefinition_concat)
qed simp_all

lemma validateQueryDocument_fold:
  "fold (validateQueryDocument_visit sv sy) ns b =
     b @ concat (map (\<lambda>n. validateQueryDocument_visit sv sy n []) ns)"
proof (induction ns arbitrary: b)
  case Nil
  show ?case by simp
next
  case (Cons n ns)
  show ?case
    using Cons.IH [of "validateQueryDocument_visit sv sy n b"]
      validateQueryDocument_visit_bucket [of sv sy n b]
    by simp
qed

lemma validateQueryDocument_concat:
  "validateQueryDocument sv doc sy =
     concat (map (\<lambda>n. validateQueryDocument_visit sv sy n []) (walk_document doc))"
  by (simp add: validateQueryDocument_def validateQueryDocument_fold)

lemma validateQueryDocument_append:
  "validateQueryDocument sv (QueryDocumentNode (xs @ ys) t) sy =
     validateQueryDocument sv (QueryDocumentNode xs t) sy @
     validateQueryDocument sv (QueryDocumentNode ys t) sy"
  by (simp add: validateQueryDocument_concat walk_document_def)

subsection \<open>At most one error per visit\<close>

lemma check_value_sets_length: "length (snd (check_value_sets sets nd v m)) \<le> Suc 0"
  by (simp add: check_value_sets_def Let_def split: option.split prod.split bool.split)

lemma check_scalar_length: "length (check_scalar sy t v) \<le> Suc 0"
  by (cases v) (simp_all split: option.split Symbol.split)

lemma validateQuery_node_length: "length (snd (validateQuery_node sv sy n m)) \<le> Suc 0"
proof (cases n)
  case (QualifiedValueNode s q v)
  then show ?thesis
    by (simp add: check_value_sets_length check_scalar_length
        split: option.split Symbol.split StaticValue.split)
next
  case (RangeNode s opn cls)
  then show ?thesis by (simp split: option.split)
next
  case (SortByNode s c)
  then show ?thesis by (simp split: Node.split)
next
  case (VariableNameNode x)
  then show ?thesis by (simp split: option.split Symbol.split)
qed simp_all

lemma validateQuery_fold_length:
  "length (snd (fold (validateQuery_visit sv sy) ns (m, b))) \<le> length b + length ns"
proof (induction ns arbitrary: m b)
  case Nil
  show ?case by simp
next
  case (Cons n ns)
  let ?m = "fst (validateQuery_node sv sy n m)" and ?c = "snd (validateQuery_node sv sy n m)"
  have "length (snd (fold (validateQuery_visit sv sy) ns (?m, b @ ?c))) \<le> length (b @ ?c) + length ns"
    by (rule Cons.IH)
  moreover have "length ?c \<le> Suc 0" by (rule validateQuery_node_length)
  ultimately show ?case by (simp add: validateQuery_visit_pair)
qed

lemma validateQuery_length:
  "length (validateQuery sv q b sy) \<le> length b + length (walk q)"
  by (simp add: validateQuery_def validateQuery_fold_length)

lemma validateVariableDefinition_node_length:
  "length (validateVariableDefinition_node name n) \<le> Suc 0"
  by (cases n) simp_all

lemma concat_length_le:
  "(\<And>x. x \<in> set xs \<Longrightarrow> length (f x) \<le> g x) \<Longrightarrow> length (concat (map f xs)) \<le> sum_list (map g xs)"
  by (induction xs) (simp_all add: add_mono)

lemma validateVariableDefinition_length:
  "length (validateVariableDefinition name v b) \<le> length b + length (walk v)"
proof -
  have "length (concat (map (validateVariableDefinition_node name) (walk v)))
          \<le> sum_list (map (\<lambda>_. Suc 0) (walk v))"
    by (rule concat_length_le) (rule validateVariableDefinition_node_length)
  then show ?thesis
    by (simp add: validateVariableDefinition_concat sum_list_triv)
qed

subsection \<open>The mutual-exclusion map\<close>

lemma register_candidates_lookup:
  "register_candidates cs value nd m k = (if k \<in> set cs \<and> k \<noteq> value then Some nd else m k)"
  by (induction cs arbitrary: m) auto







subsection \<open>Values of typed qualifiers, membership in the result\<close>

lemma isNumberOrDateLike_Date: "isNumberOrDateLike v NodeType_Date = date_like v"
  by (cases v) (auto elim: is_kind.elims)

lemma isNumberOrDateLike_Number: "isNumberOrDateLike v NodeType_Number = number_like v"
  by (cases v) (auto elim: is_kind.elims)

lemma check_scalar_Date:
  "check_scalar symbols ValueType_Date v =
     (if (case v of VariableNameNode x \<Rightarrow> user_type symbols (snd x) = Some ValueType_Date
          | _ \<Rightarrow> date_like v)
      then [] else [ValidationError v ''Invalid value, expected date'' None])"
  by (cases v)
    (simp_all add: isNumberOrDateLike_Date [symmetric] user_type_def ValueType_Date_def ValueType_Number_def
      split: option.split Symbol.split)

lemma check_scalar_Number:
  "check_scalar symbols ValueType_Number v =
     (if (case v of VariableNameNode x \<Rightarrow> user_type symbols (snd x) = Some ValueType_Number
          | _ \<Rightarrow> number_like v)
      then [] else [ValidationError v ''Invalid value, expected number'' None])"
  by (cases v)
    (simp_all add: isNumberOrDateLike_Number [symmetric] user_type_def ValueType_Date_def ValueType_Number_def
      split: option.split Symbol.split)

lemma validateQuery_fold_mem:
  assumes "n \<in> set ns" and "\<And>m. e \<in> set (snd (validateQuery_node sv sy n m))"
  shows "e \<in> set (snd (fold (validateQuery_visit sv sy) ns (m0, b)))"
  using assms(1)
proof (induction ns arbitrary: m0 b)
  case Nil
  then show ?case by simp
next
  case (Cons x xs)
  let ?m = "fst (validateQuery_node sv sy x m0)" and ?c = "snd (validateQuery_node sv sy x m0)"
  show ?case
  proof (cases "n = x")
    case True
    then have "e \<in> set (b @ ?c)" using assms(2) [of m0] by simp
    moreover have "snd (fold (validateQuery_visit sv sy) xs (?m, b @ ?c)) =
        (b @ ?c) @ snd (fold (validateQuery_visit sv sy) xs (?m, []))"
      using validateQuery_fold_bucket [of sv sy xs ?m "b @ ?c"] by simp
    ultimately show ?thesis
      by (auto simp: validateQuery_visit_pair)
  next
    case False
    with Cons.prems have "n \<in> set xs" by simp
    then show ?thesis
      using Cons.IH [of ?m "b @ ?c"] by (simp add: validateQuery_visit_pair)
  qed
qed

lemma validateQuery_mem_document:
  assumes "q \<in> set (walk_document doc)" and "node_type q = NodeType_Query"
  shows "set (validateQuery sv q [] sy) \<subseteq> set (validateQueryDocument sv doc sy)"
proof -
  obtain s ns where q: "q = QueryNode s ns" using assms(2) by (cases q) simp_all
  have "validateQueryDocument_visit sv sy q [] = validateQuery sv q [] sy"
    by (simp add: q)
  with assms(1) show ?thesis
    by (auto simp: validateQueryDocument_concat)
qed






lemma validateVariableDefinition_node_if:
  "validateVariableDefinition_node name n =
     (if is_OR_token n \<or> is_self_reference name n then [definition_error n] else [])"
  by (cases n) (simp_all add: definition_error_def)

lemma validateVariableDefinition_nodes_filter:
  "concat (map (validateVariableDefinition_node name) xs) =
     map definition_error (filter (\<lambda>n. is_OR_token n \<or> is_self_reference name n) xs)"
  by (induction xs) (simp_all add: validateVariableDefinition_node_if)

lemma validateQueryDocument_visit_other:
  "node_type n \<noteq> NodeType_Query \<Longrightarrow> node_type n \<noteq> NodeType_VariableDefinition \<Longrightarrow>
     validateQueryDocument_visit sv sy n b = b"
  by (cases n) simp_all

lemma validateQueryDocument_fold_plain:
  "\<forall>x \<in> set ns. node_type x \<noteq> NodeType_Query \<and> node_type x \<noteq> NodeType_VariableDefinition \<Longrightarrow>
     fold (validateQueryDocument_visit sv sy) ns b = b"
  by (induction ns arbitrary: b) (simp_all add: validateQueryDocument_visit_other)

lemma definition_plain_value:
  assumes "plain v"
  shows "fold (validateQueryDocument_visit sv sy) (walk (VariableDefinitionNode s n v)) b =
           validateVariableDefinition n v b"
  using assms validateQueryDocument_fold_plain [of "walk v" sv sy "validateVariableDefinition n v b"]
  by (simp add: plain_def)

lemma definition_query_value:
  assumes "\<forall>x \<in> set ns. plain x"
  shows "fold (validateQueryDocument_visit sv sy) (walk (VariableDefinitionNode s n (QueryNode s' ns))) b =
           validateQuery sv (QueryNode s' ns) (validateVariableDefinition n (QueryNode s' ns) b) sy"
proof -
  have "\<forall>x \<in> set (concat (map walk ns)).
          node_type x \<noteq> NodeType_Query \<and> node_type x \<noteq> NodeType_VariableDefinition"
    using assms by (auto simp: plain_def)
  then show ?thesis
    using validateQueryDocument_fold_plain [of "concat (map walk ns)" sv sy]
    by simp
qed

lemma validateQueryDocument_single:
  "validateQueryDocument sv (QueryDocumentNode [d] t) sy =
     fold (validateQueryDocument_visit sv sy) (walk d) []"
  by (simp add: validateQueryDocument_def walk_document_def)

lemma validateQueryDocument_split:
  "validateQueryDocument sv (QueryDocumentNode (pre @ d # post) t) sy =
     validateQueryDocument sv (QueryDocumentNode pre t) sy @
     fold (validateQueryDocument_visit sv sy) (walk d) [] @
     validateQueryDocument sv (QueryDocumentNode post t) sy"
  using validateQueryDocument_append [of sv pre "[d] @ post" t sy]
    validateQueryDocument_append [of sv "[d]" post t sy]
  by (simp add: validateQueryDocument_single)

subsection \<open>Counting visits\<close>

lemma validateQueryDocument_visit_length:
  "length (validateQueryDocument_visit sv sy n []) \<le> visits n"
proof (cases n)
  case (QueryNode s ns)
  then show ?thesis using validateQuery_length [of sv "QueryNode s ns" "[]" sy] by simp
next
  case (VariableDefinitionNode s x v)
  then show ?thesis using validateVariableDefinition_length [of x v "[]"] by simp
qed simp_all

lemma validateQueryDocument_length_visits:
  "length (validateQueryDocument sv doc sy) \<le> document_visits doc"
  unfolding validateQueryDocument_concat document_visits_def
  by (rule concat_length_le) (rule validateQueryDocument_visit_length)

lemma walk_nonempty: "walk n \<noteq> []"
  by (cases n) simp_all

lemma walk_hd: "hd (walk n) = n"
  by (cases n) simp_all

lemma walk_length_pos: "Suc 0 \<le> length (walk n)"
  by (cases n) simp_all

lemma length_le_concat: "c \<in> set ns \<Longrightarrow> length (f c) \<le> length (concat (map f ns))"
  by (induction ns) auto

lemma walk_subtree_length: "x \<in> set (walk n) \<Longrightarrow> length (walk x) \<le> length (walk n)"
proof (induction n rule: walk.induct)
  case (3 s ns)
  then show ?case
  proof (cases "x = QueryNode s ns")
    case True
    then show ?thesis by simp
  next
    case False
    with 3 obtain c where c: "c \<in> set ns" "x \<in> set (walk c)" by auto
    then have "length (walk x) \<le> length (walk c)" by (rule "3.IH")
    also have "length (walk c) \<le> length (concat (map walk ns))"
      using c(1) by (rule length_le_concat)
    finally show ?thesis by simp
  qed
next
  case (4 s opn cls)
  then show ?case by (cases opn; cases cls) (auto simp: le_Suc_eq trans_le_add1 trans_le_add2)
qed (auto simp: le_Suc_eq walk_length_pos)

lemma visits_le_walk: "visits n \<le> length (walk n)"
  by (cases n) simp_all

lemma sum_list_bound: "(\<And>x. x \<in> set xs \<Longrightarrow> f x \<le> (k::nat)) \<Longrightarrow> sum_list (map f xs) \<le> length xs * k"
  by (induction xs) (simp_all add: add_mono)

lemma walk_document_subtree_length:
  assumes "x \<in> set (walk_document doc)"
  shows "length (walk x) \<le> length (walk_document doc)"
proof -
  from assms obtain c where c: "c \<in> set (nodes doc)" "x \<in> set (walk c)"
    by (auto simp: walk_document_def)
  have "length (walk x) \<le> length (walk c)" using c(2) by (rule walk_subtree_length)
  also have "length (walk c) \<le> length (concat (map walk (nodes doc)))"
    using c(1) by (rule length_le_concat)
  finally show ?thesis by (simp add: walk_document_def)
qed

lemma document_visits_square: "document_visits doc \<le> (document_size doc)\<^sup>2"
proof -
  let ?L = "length (walk_document doc)"
  have "visits x \<le> ?L" if "x \<in> set (walk_document doc)" for x
    using visits_le_walk [of x] walk_document_subtree_length [OF that] by simp
  then have "document_visits doc \<le> ?L * ?L"
    unfolding document_visits_def by (rule sum_list_bound)
  also have "\<dots> \<le> Suc ?L * Suc ?L" by (simp add: mult_le_mono)
  finally show ?thesis by (simp add: document_size_def power2_eq_square)
qed

lemma flat_visits:
  assumes "flat n"
  shows "sum_list (map visits (walk n)) \<le> length (walk n)"
proof -
  have rest: "sum_list (map visits xs) = 0"
    if "\<forall>x \<in> set xs. node_type x \<noteq> NodeType_Query \<and> node_type x \<noteq> NodeType_VariableDefinition" for xs
    using that
  proof (induction xs)
    case Nil
    show ?case by simp
  next
    case (Cons a xs)
    then show ?case by (cases a) simp_all
  qed
  have "walk n = n # tl (walk n)"
    using walk_nonempty [of n] walk_hd [of n] by (cases "walk n") simp_all
  then have "sum_list (map visits (walk n)) = visits n + sum_list (map visits (tl (walk n)))"
    by (metis list.simps(9) sum_list.Cons)
  also have "\<dots> = visits n" using rest assms by (simp add: flat_def)
  finally show ?thesis using visits_le_walk [of n] by simp
qed

lemma document_visits_flat:
  assumes "\<forall>n \<in> set (nodes doc). flat n"
  shows "document_visits doc \<le> document_size doc"
proof -
  have "sum_list (map visits (concat (map walk ns))) \<le> length (concat (map walk ns))"
    if "\<forall>n \<in> set ns. flat n" for ns
    using that
  proof (induction ns)
    case Nil
    show ?case by simp
  next
    case (Cons a ns)
    then have "sum_list (map visits (walk a)) \<le> length (walk a)"
      and "sum_list (map visits (concat (map walk ns))) \<le> length (concat (map walk ns))"
      by (simp_all add: flat_visits)
    then show ?case by simp
  qed
  from this [OF assms] show ?thesis
    by (simp add: document_visits_def document_size_def walk_document_def)
qed

subsection \<open>Splitting at the separator\<close>

lemma indexOf_takeWhile:
  "indexOf s c = (if c \<in> set s then int (length (takeWhile (\<lambda>x. x \<noteq> c) s)) else - 1)"
  by (induction s) (auto simp: Let_def)

lemma length_takeWhile_le_length: "length (takeWhile P s) \<le> length s"
  by (induction s) auto

lemma take_length_takeWhile: "take (length (takeWhile P s)) s = takeWhile P s"
  by (induction s) auto

lemma drop_length_takeWhile: "drop (length (takeWhile P s)) s = dropWhile P s"
  by (induction s) auto

lemma yield_string:
  "getRepoInfos_yield (StringValue str # rest) =
     (case split_repo str of None \<Rightarrow> [] | Some r \<Rightarrow> [r]) @ getRepoInfos_yield rest"
proof (cases "CHR ''/'' \<in> set str")
  case False
  then show ?thesis by (simp add: indexOf_takeWhile split_repo_def)
next
  case True
  let ?k = "length (takeWhile (\<lambda>c. c \<noteq> CHR ''/'') str)"
  have idx: "indexOf str (CHR ''/'') = int ?k"
    using True by (simp add: indexOf_takeWhile)
  have le: "?k \<le> length str" by (rule length_takeWhile_le_length)
  have left: "substring str 0 ?k = takeWhile (\<lambda>c. c \<noteq> CHR ''/'') str"
    using le by (simp add: substring_def take_length_takeWhile)
  have right: "substring_from str (nat (int ?k + 1)) = drop 1 (dropWhile (\<lambda>c. c \<noteq> CHR ''/'') str)"
    by (simp add: substring_from_def nat_add_distrib drop_length_takeWhile [symmetric] add.commute)
  show ?thesis
    using True left right
    by (simp add: idx split_repo_def Let_def)
qed

lemma node_yield:
  "getRepoInfos_yield (getRepoInfos_node print source symbols nd @ rest) =
     (case repo_string print source symbols nd of
        None \<Rightarrow> []
      | Some str \<Rightarrow> (case split_repo str of None \<Rightarrow> [] | Some r \<Rightarrow> [r])) @ getRepoInfos_yield rest"
proof (cases nd)
  case (QualifiedValueNode s q v)
  show ?thesis
  proof (cases "resolve_value print source symbols v")
    case None
    with QualifiedValueNode show ?thesis by simp
  next
    case (Some val)
    show ?thesis
    proof (cases val)
      case (SetsValue sets)
      with Some QualifiedValueNode show ?thesis by simp
    next
      case (StringValue str)
      show ?thesis
      proof (cases "str = []")
        case True
        with StringValue Some QualifiedValueNode show ?thesis by (simp add: split_repo_def)
      next
        case False
        with StringValue Some QualifiedValueNode show ?thesis
          by (simp add: yield_string del: getRepoInfos_yield.simps)
      qed
    qed
  qed
qed simp_all

lemma fold_push:
  "fold (\<lambda>nd acc. acc @ f nd) ns acc = acc @ concat (map f ns)"
  by (induction ns arbitrary: acc) simp_all

lemma nodes_yield:
  "getRepoInfos_yield (concat (map (getRepoInfos_node print source symbols) ns)) =
     List.map_filter split_repo (List.map_filter (repo_string print source symbols) ns)"
proof (induction ns)
  case Nil
  show ?case by simp
next
  case (Cons nd ns)
  show ?case
    using node_yield [of "print" source symbols nd "concat (map (getRepoInfos_node print source symbols) ns)"]
    by (simp add: Cons.IH split: option.split)
qed

lemma validateQueryDocument_Nil: "validateQueryDocument sv (QueryDocumentNode [] t) sy = []"
  by (simp add: validateQueryDocument_def walk_document_def)

lemma validateQueryDocument_single_query:
  assumes "\<forall>x \<in> set ns. plain x"
  shows "validateQueryDocument sv (QueryDocumentNode [QueryNode s ns] t) sy =
           validateQuery sv (QueryNode s ns) [] sy"
proof -
  have "\<forall>x \<in> set (concat (map walk ns)).
          node_type x \<noteq> NodeType_Query \<and> node_type x \<noteq> NodeType_VariableDefinition"
    using assms by (auto simp: plain_def)
  then show ?thesis
    using validateQueryDocument_fold_plain [of "concat (map walk ns)" sv sy]
    by (simp add: validateQueryDocument_single)
qed

lemma validateVariableDefinition_mem_document:
  assumes "VariableDefinitionNode s n v \<in> set (walk_document doc)"
  shows "set (validateVariableDefinition n v []) \<subseteq> set (validateQueryDocument sv doc sy)"
proof -
  have "validateQueryDocument_visit sv sy (VariableDefinitionNode s n v) [] =
          validateVariableDefinition n v []"
    by simp
  with assms show ?thesis
    by (auto simp: validateQueryDocument_concat)
qed

lemma validateVariableDefinition_not_missing:
  assumes "e \<in> set (validateVariableDefinition name v [])"
  shows "node_type (node e) \<noteq> NodeType_Missing"
proof -
  from assms obtain x where x: "is_OR_token x \<or> is_self_reference name x" "e = definition_error x"
    by (auto simp: validateVariableDefinition_concat validateVariableDefinition_nodes_filter)
  then show ?thesis
    by (cases x) (simp_all add: definition_error_def)
qed

lemma validateQueryDocument_no_query:
  assumes "\<forall>x \<in> set (walk_document doc). node_type x \<noteq> NodeType_Query"
    and "e \<in> set (validateQueryDocument sv doc sy)"
  shows "node_type (node e) \<noteq> NodeType_Missing"
proof -
  from assms(2) obtain n where n: "n \<in> set (walk_document doc)"
    "e \<in> set (validateQueryDocument_visit sv sy n [])"
    by (auto simp: validateQueryDocument_concat)
  show ?thesis
  proof (cases n)
    case (QueryNode s ns)
    with n(1) assms(1) show ?thesis by auto
  next
    case (VariableDefinitionNode s x v)
    with n(2) show ?thesis by (simp add: validateVariableDefinition_not_missing)
  qed (use n(2) in simp_all)
qed

subsection \<open>How the map of excluded values grows\<close>

lemma scan_sets_first_set:
  "scan_sets sets v nd m =
     (case first_set sets v of
        None \<Rightarrow> (False, m)
      | Some S \<Rightarrow> (True, register_candidates S v nd m))"
  by (induction sets) simp_all

lemma register_candidates_fun:
  "register_candidates S v nd m = (\<lambda>k. if k \<in> set S \<and> k \<noteq> v then Some nd else m k)"
  by (rule ext) (simp add: register_candidates_lookup)

lemma check_value_sets_rule:
  "check_value_sets sets nd v m =
     (case m (literal_text v) of
        Some c \<Rightarrow> (m, [ValidationError nd ''Conflicts with mutual exclusive expression'' (Some c)])
      | None \<Rightarrow>
          (case first_set sets (literal_text v) of
             Some S \<Rightarrow> (\<lambda>k. if k \<in> set S \<and> k \<noteq> literal_text v then Some nd else m k, [])
           | None \<Rightarrow> (m, [unknown_value v sets])))"
  by (simp add: check_value_sets_def scan_sets_first_set register_candidates_fun
      split: option.split)

lemma value_sets_node_rule:
  assumes "symbols name = Some (StaticSymbol (ValueSets sets))"
  shows "validateQuery_node sv symbols (QualifiedValueNode s (qs, name) v) m =
     (case m (literal_text v) of
        Some c \<Rightarrow>
          (m, [ValidationError (QualifiedValueNode s (qs, name) v)
                 ''Conflicts with mutual exclusive expression'' (Some c)])
      | None \<Rightarrow>
          (case first_set sets (literal_text v) of
             Some S \<Rightarrow>
               (\<lambda>k. if k \<in> set S \<and> k \<noteq> literal_text v
                    then Some (QualifiedValueNode s (qs, name) v) else m k, [])
           | None \<Rightarrow> (m, [unknown_value v sets])))"
  using assms by (simp add: check_value_sets_rule)

lemma validateQuery_node_preserves:
  assumes "\<not> excludes symbols n k"
  shows "fst (validateQuery_node sv symbols n m) k = m k"
proof (cases n)
  case (QualifiedValueNode s q v)
  with assms show ?thesis
    by (auto simp: check_value_sets_rule split: option.splits Symbol.splits StaticValue.splits)
next
  case (RangeNode s opn cls)
  then show ?thesis by (cases opn; cases cls) simp_all
next
  case (SortByNode s c)
  then show ?thesis by (simp split: Node.split)
next
  case (VariableNameNode x)
  then show ?thesis by (simp split: option.split Symbol.split)
qed simp_all

lemma validateQuery_fold_preserves:
  assumes "\<forall>n \<in> set ns. \<not> excludes symbols n k"
  shows "fst (fold (validateQuery_visit sv symbols) ns (m, b)) k = m k"
  using assms
proof (induction ns arbitrary: m b)
  case Nil
  show ?case by simp
next
  case (Cons n ns)
  then have "fst (fold (validateQuery_visit sv symbols) ns
                (fst (validateQuery_node sv symbols n m), b @ snd (validateQuery_node sv symbols n m))) k =
             fst (validateQuery_node sv symbols n m) k"
    by simp
  also have "\<dots> = m k"
    using Cons.prems by (simp add: validateQuery_node_preserves)
  finally show ?case by (simp add: validateQuery_visit_pair)
qed

lemma conflict_after:
  assumes A: "symbols name = Some (StaticSymbol (ValueSets sets))"
    and B: "symbols name' = Some (StaticSymbol (ValueSets sets'))"
    and free: "m v1 = None"
    and S: "first_set sets v1 = Some S" "v2 \<in> set S" "v2 \<noteq> v1"
    and mid: "\<forall>n \<in> set mid. \<not> excludes symbols n v2"
  shows "fold (validateQuery_visit sv symbols)
           (QualifiedValueNode a (qa, name) (LiteralNode (la, v1)) # mid @
              [QualifiedValueNode b (qb, name') (LiteralNode (lb, v2))]) (m, bucket) =
         (fst (fold (validateQuery_visit sv symbols)
                 (QualifiedValueNode a (qa, name) (LiteralNode (la, v1)) # mid) (m, bucket)),
          snd (fold (validateQuery_visit sv symbols)
                 (QualifiedValueNode a (qa, name) (LiteralNode (la, v1)) # mid) (m, bucket)) @
          [ValidationError (QualifiedValueNode b (qb, name') (LiteralNode (lb, v2)))
             ''Conflicts with mutual exclusive expression''
             (Some (QualifiedValueNode a (qa, name) (LiteralNode (la, v1))))])"
proof -
  let ?A = "QualifiedValueNode a (qa, name) (LiteralNode (la, v1))"
  let ?B = "QualifiedValueNode b (qb, name') (LiteralNode (lb, v2))"
  let ?mA = "\<lambda>k. if k \<in> set S \<and> k \<noteq> v1 then Some ?A else m k"
  have stepA: "validateQuery_node sv symbols ?A m = (?mA, [])"
    using free S(1)
    by (simp add: value_sets_node_rule [where symbols = symbols and name = name, OF A]
        del: validateQuery_node.simps)
  obtain m2 b2 where st: "fold (validateQuery_visit sv symbols) mid (?mA, bucket) = (m2, b2)"
    by (cases "fold (validateQuery_visit sv symbols) mid (?mA, bucket)")
  have "m2 v2 = ?mA v2"
    using validateQuery_fold_preserves [OF mid, of sv ?mA bucket] st by simp
  then have m2: "m2 v2 = Some ?A" using S by simp
  have stepB: "validateQuery_node sv symbols ?B m2 =
      (m2, [ValidationError ?B ''Conflicts with mutual exclusive expression'' (Some ?A)])"
    using m2
    by (simp add: value_sets_node_rule [where symbols = symbols and name = name', OF B]
        del: validateQuery_node.simps)
  show ?thesis
    using stepA st stepB
    by (simp add: validateQuery_visit_pair del: validateQuery_node.simps)
qed

lemma validateQuery_node_no_conflict:
  assumes "m (literal_text v) = None"
  shows "\<forall>e \<in> set (snd (validateQuery_node sv symbols (QualifiedValueNode s q v) m)).
           conflictNode e = None"
proof -
  have "\<forall>e \<in> set (check_scalar symbols t v). conflictNode e = None" for t
    by (cases v) (simp_all split: option.split Symbol.split)
  then show ?thesis
    using assms
    by (simp add: check_value_sets_rule unknown_qualifier_def unknown_value_def
        split: option.split Symbol.split StaticValue.split)
qed

lemma validateQuery_node_other_no_conflict:
  assumes "node_type n \<noteq> NodeType_QualifiedValue"
  shows "\<forall>e \<in> set (snd (validateQuery_node sv symbols n m)). conflictNode e = None"
proof (cases n)
  case (QualifiedValueNode s q v)
  with assms show ?thesis by simp
next
  case (RangeNode s opn cls)
  then show ?thesis by (cases opn; cases cls) simp_all
next
  case (SortByNode s c)
  then show ?thesis by (simp split: Node.split)
next
  case (VariableNameNode x)
  then show ?thesis by (simp split: option.split Symbol.split)
qed simp_all

lemma same_value_fold:
  assumes "\<forall>n \<in> set ns. \<forall>t. value_text n = Some t \<longrightarrow> t = v"
    and "m v = None" and "\<forall>e \<in> set b. conflictNode e = None"
  shows "\<forall>e \<in> set (snd (fold (validateQuery_visit sv symbols) ns (m, b))). conflictNode e = None"
  using assms
proof (induction ns arbitrary: m b)
  case Nil
  then show ?case by simp
next
  case (Cons n ns)
  let ?m = "fst (validateQuery_node sv symbols n m)" and ?c = "snd (validateQuery_node sv symbols n m)"
  have same: "literal_text val = v" if "n = QualifiedValueNode s q val" for s q val
    using Cons.prems(1) that by simp
  have ex: "\<not> excludes symbols n v"
  proof (cases n)
    case (QualifiedValueNode s q val)
    then show ?thesis
      using same [OF QualifiedValueNode]
      by (auto split: option.split Symbol.split StaticValue.split)
  qed simp_all
  have m: "?m v = None"
    using validateQuery_node_preserves [OF ex] Cons.prems(2) by simp
  have c: "\<forall>e \<in> set ?c. conflictNode e = None"
  proof (cases "node_type n = NodeType_QualifiedValue")
    case True
    then obtain s q val where n: "n = QualifiedValueNode s q val"
      by (cases n) simp_all
    show ?thesis
      unfolding n
      by (rule validateQuery_node_no_conflict) (simp add: same [OF n] Cons.prems(2))
  next
    case False
    then show ?thesis by (rule validateQuery_node_other_no_conflict)
  qed
  have "\<forall>e \<in> set (snd (fold (validateQuery_visit sv symbols) ns (?m, b @ ?c))). conflictNode e = None"
    using Cons.prems(1,3) m c by (intro Cons.IH) auto
  then show ?case by (simp add: validateQuery_visit_pair)
qed

lemma first_set_disjoint:
  "disjoint_sets sets \<Longrightarrow> S \<in> set sets \<Longrightarrow> v \<in> set S \<Longrightarrow> first_set sets v = Some S"
  by (induction sets) auto

lemma two_node_query:
  assumes A: "symbols name = Some (StaticSymbol (ValueSets sets))"
    and B: "symbols name' = Some (StaticSymbol (ValueSets sets'))"
    and S: "first_set sets v1 = Some S" "v2 \<in> set S" "v2 \<noteq> v1"
  shows "validateQuery sv
           (QueryNode s [QualifiedValueNode a (qa, name) (LiteralNode (la, v1)),
                         QualifiedValueNode b (qb, name') (LiteralNode (lb, v2))]) [] symbols =
           [ValidationError (QualifiedValueNode b (qb, name') (LiteralNode (lb, v2)))
              ''Conflicts with mutual exclusive expression''
              (Some (QualifiedValueNode a (qa, name) (LiteralNode (la, v1))))]"
  using A B S
  by (simp add: validateQuery_def validateQuery_visit_pair check_value_sets_rule)

lemma plain_literal_value: "plain (QualifiedValueNode a q (LiteralNode l))"
  by (simp add: plain_def)

lemma two_node_document:
  assumes A: "symbols name = Some (StaticSymbol (ValueSets sets))"
    and B: "symbols name' = Some (StaticSymbol (ValueSets sets'))"
    and S: "first_set sets v1 = Some S" "v2 \<in> set S" "v2 \<noteq> v1"
  shows "validateQueryDocument sv
           (QueryDocumentNode
              [QueryNode s [QualifiedValueNode a (qa, name) (LiteralNode (la, v1)),
                            QualifiedValueNode b (qb, name') (LiteralNode (lb, v2))]] t) symbols =
           [ValidationError (QualifiedValueNode b (qb, name') (LiteralNode (lb, v2)))
              ''Conflicts with mutual exclusive expression''
              (Some (QualifiedValueNode a (qa, name) (LiteralNode (la, v1))))]"
  using two_node_query [where symbols = symbols and name = name and name' = name', OF A B S]
  by (simp add: validateQueryDocument_single_query plain_literal_value)

lemma query_same_value:
  assumes "\<forall>n \<in> set (walk q). \<forall>t. value_text n = Some t \<longrightarrow> t = v"
  shows "\<forall>e \<in> set (validateQuery sv q [] symbols). conflictNode e = None"
  unfolding validateQuery_def
  by (rule same_value_fold [OF assms]) simp_all

lemma no_conflict_without_excluder:
  assumes "\<forall>n \<in> set ns. \<not> excludes symbols n (literal_text v)"
  shows "\<forall>e \<in> set (snd (validateQuery_node sv symbols (QualifiedValueNode s q v)
             (fst (fold (validateQuery_visit sv symbols) ns (Map.empty, b))))).
           conflictNode e = None"
  by (rule validateQuery_node_no_conflict)
    (simp add: validateQuery_fold_preserves [OF assms])

lemma query_dispatch:
  assumes "\<forall>x \<in> set ns. plain x"
  shows "validateQueryDocument sv (QueryDocumentNode (pre @ QueryNode s ns # post) t) symbols =
           validateQueryDocument sv (QueryDocumentNode pre t) symbols @
           validateQuery sv (QueryNode s ns) [] symbols @
           validateQueryDocument sv (QueryDocumentNode post t) symbols"
proof -
  have "fold (validateQueryDocument_visit sv symbols) (walk (QueryNode s ns)) [] =
          validateQuery sv (QueryNode s ns) [] symbols"
    using validateQueryDocument_single_query [OF assms, of sv s t symbols]
    by (simp only: validateQueryDocument_single)
  then show ?thesis
    by (simp only: validateQueryDocument_split)
qed

section \<open>The claims\<close>

text \<open>
  Claim C1, as amended. The map of a query is keyed by the value text alone. At a
  QualifiedValue node whose qualifier has value sets the callback gives the diagnostic
  "Conflicts with mutual exclusive expression" exactly when the node's value is in the
  map, with the mapped node as conflict node and the map unchanged; otherwise, when a
  set of the qualifier has the value, every other member of the first such set is mapped
  to this node, replacing an earlier entry, and the value itself gets no entry; no other
  node changes an entry. So a value \<^verbatim>\<open>v1\<close> that is not excluded yet, followed after any
  nodes that do not exclude \<^verbatim>\<open>v2\<close> by another member \<^verbatim>\<open>v2\<close> of the first set that has
  \<^verbatim>\<open>v1\<close>, gives exactly one conflict diagnostic on the second node with the first node
  as its conflict node; for a query, and a document, of just these two nodes that is the
  whole result. A query in which all qualifier values are the same text has no conflict
  diagnostic, and no node gets one unless an earlier node of the walk excludes its
  value. Each Query starts from the empty map: in a document a Query contributes what
  \<^verbatim>\<open>validateQuery\<close> gives for it alone, whatever its siblings are. For disjoint value sets
  the first set that has a value is the set that has it.
\<close>

theorem mutual_exclusion_rule:
  "(symbols name = Some (StaticSymbol (ValueSets sets)) \<longrightarrow>
      validateQuery_node sv symbols (QualifiedValueNode s (qs, name) v) m =
        (case m (literal_text v) of
           Some c \<Rightarrow>
             (m, [ValidationError (QualifiedValueNode s (qs, name) v)
                    ''Conflicts with mutual exclusive expression'' (Some c)])
         | None \<Rightarrow>
             (case first_set sets (literal_text v) of
                Some S \<Rightarrow>
                  (\<lambda>k. if k \<in> set S \<and> k \<noteq> literal_text v
                       then Some (QualifiedValueNode s (qs, name) v) else m k, [])
              | None \<Rightarrow> (m, [unknown_value v sets])))) \<and>
   (\<not> excludes symbols n k \<longrightarrow> fst (validateQuery_node sv symbols n m) k = m k) \<and>
   (symbols name = Some (StaticSymbol (ValueSets sets)) \<and>
    symbols name' = Some (StaticSymbol (ValueSets sets')) \<and>
    m v1 = None \<and> first_set sets v1 = Some S \<and> v2 \<in> set S \<and> v2 \<noteq> v1 \<and>
    (\<forall>x \<in> set mid. \<not> excludes symbols x v2) \<longrightarrow>
      fold (validateQuery_visit sv symbols)
        (QualifiedValueNode a (qa, name) (LiteralNode (la, v1)) # mid @
           [QualifiedValueNode b (qb, name') (LiteralNode (lb, v2))]) (m, bucket) =
        (fst (fold (validateQuery_visit sv symbols)
                (QualifiedValueNode a (qa, name) (LiteralNode (la, v1)) # mid) (m, bucket)),
         snd (fold (validateQuery_visit sv symbols)
                (QualifiedValueNode a (qa, name) (LiteralNode (la, v1)) # mid) (m, bucket)) @
         [ValidationError (QualifiedValueNode b (qb, name') (LiteralNode (lb, v2)))
            ''Conflicts with mutual exclusive expression''
            (Some (QualifiedValueNode a (qa, name) (LiteralNode (la, v1))))])) \<and>
   (symbols name = Some (StaticSymbol (ValueSets sets)) \<and>
    symbols name' = Some (StaticSymbol (ValueSets sets')) \<and>
    first_set sets v1 = Some S \<and> v2 \<in> set S \<and> v2 \<noteq> v1 \<longrightarrow>
      validateQuery sv
        (QueryNode s [QualifiedValueNode a (qa, name) (LiteralNode (la, v1)),
                      QualifiedValueNode b (qb, name') (LiteralNode (lb, v2))]) [] symbols =
        [ValidationError (QualifiedValueNode b (qb, name') (LiteralNode (lb, v2)))
           ''Conflicts with mutual exclusive expression''
           (Some (QualifiedValueNode a (qa, name) (LiteralNode (la, v1))))] \<and>
      validateQueryDocument sv
        (QueryDocumentNode
           [QueryNode s [QualifiedValueNode a (qa, name) (LiteralNode (la, v1)),
                         QualifiedValueNode b (qb, name') (LiteralNode (lb, v2))]] t) symbols =
        [ValidationError (QualifiedValueNode b (qb, name') (LiteralNode (lb, v2)))
           ''Conflicts with mutual exclusive expression''
           (Some (QualifiedValueNode a (qa, name) (LiteralNode (la, v1))))]) \<and>
   ((\<forall>x \<in> set (walk q). \<forall>w. value_text x = Some w \<longrightarrow> w = v0) \<longrightarrow>
      (\<forall>e \<in> set (validateQuery sv q [] symbols). conflictNode e = None)) \<and>
   ((\<forall>x \<in> set ns. \<not> excludes symbols x (literal_text v)) \<longrightarrow>
      (\<forall>e \<in> set (snd (validateQuery_node sv symbols (QualifiedValueNode s (qs, name) v)
                  (fst (fold (validateQuery_visit sv symbols) ns (Map.empty, bucket))))).
         conflictNode e = None)) \<and>
   ((\<forall>x \<in> set ns'. plain x) \<longrightarrow>
      validateQueryDocument sv (QueryDocumentNode (pre @ QueryNode s' ns' # post) t) symbols =
        validateQueryDocument sv (QueryDocumentNode pre t) symbols @
        validateQuery sv (QueryNode s' ns') [] symbols @
        validateQueryDocument sv (QueryDocumentNode post t) symbols) \<and>
   (disjoint_sets sets \<and> S \<in> set sets \<and> v1 \<in> set S \<longrightarrow> first_set sets v1 = Some S)"
proof (intro conjI impI; (elim conjE)?)
  assume "symbols name = Some (StaticSymbol (ValueSets sets))"
  then show "validateQuery_node sv symbols (QualifiedValueNode s (qs, name) v) m =
        (case m (literal_text v) of
           Some c \<Rightarrow>
             (m, [ValidationError (QualifiedValueNode s (qs, name) v)
                    ''Conflicts with mutual exclusive expression'' (Some c)])
         | None \<Rightarrow>
             (case first_set sets (literal_text v) of
                Some S \<Rightarrow>
                  (\<lambda>k. if k \<in> set S \<and> k \<noteq> literal_text v
                       then Some (QualifiedValueNode s (qs, name) v) else m k, [])
              | None \<Rightarrow> (m, [unknown_value v sets])))"
    by (rule value_sets_node_rule)
next
  assume "\<not> excludes symbols n k"
  then show "fst (validateQuery_node sv symbols n m) k = m k"
    by (rule validateQuery_node_preserves)
next
  assume "symbols name = Some (StaticSymbol (ValueSets sets))"
    "symbols name' = Some (StaticSymbol (ValueSets sets'))"
    "m v1 = None" "first_set sets v1 = Some S" "v2 \<in> set S" "v2 \<noteq> v1"
    "\<forall>x \<in> set mid. \<not> excludes symbols x v2"
  then show "fold (validateQuery_visit sv symbols)
        (QualifiedValueNode a (qa, name) (LiteralNode (la, v1)) # mid @
           [QualifiedValueNode b (qb, name') (LiteralNode (lb, v2))]) (m, bucket) =
        (fst (fold (validateQuery_visit sv symbols)
                (QualifiedValueNode a (qa, name) (LiteralNode (la, v1)) # mid) (m, bucket)),
         snd (fold (validateQuery_visit sv symbols)
                (QualifiedValueNode a (qa, name) (LiteralNode (la, v1)) # mid) (m, bucket)) @
         [ValidationError (QualifiedValueNode b (qb, name') (LiteralNode (lb, v2)))
            ''Conflicts with mutual exclusive expression''
            (Some (QualifiedValueNode a (qa, name) (LiteralNode (la, v1))))])"
    by (rule conflict_after [where symbols = symbols and name = name and name' = name'])
next
  assume h: "symbols name = Some (StaticSymbol (ValueSets sets))"
    "symbols name' = Some (StaticSymbol (ValueSets sets'))"
    "first_set sets v1 = Some S" "v2 \<in> set S" "v2 \<noteq> v1"
  show "validateQuery sv
        (QueryNode s [QualifiedValueNode a (qa, name) (LiteralNode (la, v1)),
                      QualifiedValueNode b (qb, name') (LiteralNode (lb, v2))]) [] symbols =
        [ValidationError (QualifiedValueNode b (qb, name') (LiteralNode (lb, v2)))
           ''Conflicts with mutual exclusive expression''
           (Some (QualifiedValueNode a (qa, name) (LiteralNode (la, v1))))]"
    by (rule two_node_query [where symbols = symbols and name = name and name' = name', OF h])
  show "validateQueryDocument sv
        (QueryDocumentNode
           [QueryNode s [QualifiedValueNode a (qa, name) (LiteralNode (la, v1)),
                         QualifiedValueNode b (qb, name') (LiteralNode (lb, v2))]] t) symbols =
        [ValidationError (QualifiedValueNode b (qb, name') (LiteralNode (lb, v2)))
           ''Conflicts with mutual exclusive expression''
           (Some (QualifiedValueNode a (qa, name) (LiteralNode (la, v1))))]"
    by (rule two_node_document [where symbols = symbols and name = name and name' = name', OF h])
next
  assume "\<forall>x \<in> set (walk q). \<forall>w. value_text x = Some w \<longrightarrow> w = v0"
  then show "\<forall>e \<in> set (validateQuery sv q [] symbols). conflictNode e = None"
    by (rule query_same_value)
next
  assume "\<forall>x \<in> set ns. \<not> excludes symbols x (literal_text v)"
  then show "\<forall>e \<in> set (snd (validateQuery_node sv symbols (QualifiedValueNode s (qs, name) v)
                  (fst (fold (validateQuery_visit sv symbols) ns (Map.empty, bucket))))).
         conflictNode e = None"
    by (rule no_conflict_without_excluder)
next
  assume "\<forall>x \<in> set ns'. plain x"
  then show "validateQueryDocument sv (QueryDocumentNode (pre @ QueryNode s' ns' # post) t) symbols =
        validateQueryDocument sv (QueryDocumentNode pre t) symbols @
        validateQuery sv (QueryNode s' ns') [] symbols @
        validateQueryDocument sv (QueryDocumentNode post t) symbols"
    by (rule query_dispatch)
next
  assume "disjoint_sets sets" "S \<in> set sets" "v1 \<in> set S"
  then show "first_set sets v1 = Some S"
    by (rule first_set_disjoint)
qed

theorem mutual_exclusion_rule_witness:
  "validateQueryDocument []
     (QueryDocumentNode [QueryNode (0, 14) [is_pr, is_issue]] ''is:pr is:issue'') example_symbols =
     [ValidationError is_issue ''Conflicts with mutual exclusive expression'' (Some is_pr)] \<and>
   validateQuery [] (QueryNode (0, 14) [is_pr, is_issue]) [] example_symbols =
     [ValidationError is_issue ''Conflicts with mutual exclusive expression'' (Some is_pr)]"
proof -
  have h: "example_symbols ''is'' = Some (StaticSymbol (ValueSets example_sets)) \<and>
        example_symbols ''is'' = Some (StaticSymbol (ValueSets example_sets)) \<and>
        first_set example_sets ''pr'' = Some [''pr'', ''issue''] \<and>
        ''issue'' \<in> set [''pr'', ''issue''] \<and> ''issue'' \<noteq> ''pr''"
    by (simp add: example_symbols_def example_sets_def)
  show ?thesis
    unfolding is_pr_def is_issue_def
    using mutual_exclusion_rule [where symbols = example_symbols and name = "''is''"
        and name' = "''is''", THEN conjunct2, THEN conjunct2, THEN conjunct2, THEN conjunct1,
        rule_format, OF h]
    by blast
qed

text \<open>
  In \<^verbatim>\<open>is:pr type:pr is:issue\<close> the values of \<^verbatim>\<open>is:pr\<close> and \<^verbatim>\<open>is:issue\<close> come from one
  set of one qualifier, and the conflict node of the diagnostic is \<^verbatim>\<open>type:pr\<close>, which
  replaced the entry of \<^verbatim>\<open>is:pr\<close>. With the overlapping sets (a, c) and (a, b) the query
  \<^verbatim>\<open>q:a q:b\<close> has no diagnostic, as the scan stops at the first set that has \<^verbatim>\<open>a\<close>.
\<close>

theorem conflict_node_not_first_occurrence:
  "validateQuery [] (QueryNode (0, 22) [is_pr, type_pr, is_issue_third]) [] example_symbols_type =
     [ValidationError is_issue_third ''Conflicts with mutual exclusive expression'' (Some type_pr)] \<and>
   validateQuery []
     (QueryNode (0, 7)
        [QualifiedValueNode (0, 3) ((0, 1), ''q'') (LiteralNode ((2, 3), ''a'')),
         QualifiedValueNode (4, 7) ((4, 5), ''q'') (LiteralNode ((6, 7), ''b''))])
     [] example_symbols_overlap = []"
  by (simp add: validateQuery_def validateQuery_visit_pair check_value_sets_rule
      example_symbols_type_def example_symbols_def example_sets_def example_symbols_overlap_def
      is_pr_def type_pr_def is_issue_third_def)

text \<open>
  Claim C2, as amended. A QualifiedValue node whose qualifier name is not bound to a Static
  symbol gets exactly one diagnostic "Unknown qualifier: '<name>'", attached to the
  qualifier node, and none of the qualifier's value rules is applied to it (the map is
  left as it was). The walk then goes on into the value subtree from that state, and the
  nodes there are checked by the rules of their own kinds.
\<close>

theorem unknown_qualifier_then_value:
  assumes "\<forall>sv'. symbols name \<noteq> Some (StaticSymbol sv')"
  shows "validateQuery_node sv symbols (QualifiedValueNode s (qs, name) v) m =
           (m, [ValidationError (LiteralNode (qs, name))
                  (''Unknown qualifier: '' @ quote @ name @ quote) None]) \<and>
         fold (validateQuery_visit sv symbols) (walk (QualifiedValueNode s (qs, name) v)) (m, b) =
           fold (validateQuery_visit sv symbols) (walk v)
             (m, b @ [ValidationError (LiteralNode (qs, name))
                        (''Unknown qualifier: '' @ quote @ name @ quote) None])"
proof -
  have "validateQuery_node sv symbols (QualifiedValueNode s (qs, name) v) m =
          (m, [unknown_qualifier (qs, name)])"
    using assms by (simp split: option.split Symbol.split)
  then show ?thesis
    by (simp add: validateQuery_visit_pair unknown_qualifier_def)
qed

theorem unknown_qualifier_then_value_witness:
  "validateQuery_node [] example_symbols
     (QualifiedValueNode (0, 9) ((0, 5), ''label'') (LiteralNode ((6, 9), ''bug''))) Map.empty =
     (Map.empty,
      [ValidationError (LiteralNode ((0, 5), ''label''))
         (''Unknown qualifier: '' @ quote @ ''label'' @ quote) None]) \<and>
   fold (validateQuery_visit [] example_symbols)
     (walk (QualifiedValueNode (0, 9) ((0, 5), ''label'') (LiteralNode ((6, 9), ''bug''))))
     (Map.empty, []) =
   fold (validateQuery_visit [] example_symbols) (walk (LiteralNode ((6, 9), ''bug'')))
     (Map.empty,
      [] @ [ValidationError (LiteralNode ((0, 5), ''label''))
              (''Unknown qualifier: '' @ quote @ ''label'' @ quote) None])"
proof -
  have "\<forall>sv'. example_symbols ''label'' \<noteq> Some (StaticSymbol sv')"
    by (simp add: example_symbols_def)
  then show ?thesis
    by (rule unknown_qualifier_then_value)
qed

text \<open>
  The query \<^verbatim>\<open>label:\<close> with a placeholder for the missing value: the unknown qualifier is
  reported, and so is the Missing node of its value subtree.
\<close>

theorem unknown_qualifier_value_checked:
  "validateQuery []
     (QueryNode (0, 6)
        [QualifiedValueNode (0, 6) ((0, 5), ''label'') (MissingNode (6, 6) ''value expected'')])
     [] example_symbols =
     [ValidationError (LiteralNode ((0, 5), ''label''))
        (''Unknown qualifier: '' @ quote @ ''label'' @ quote) None,
      ValidationError (MissingNode (6, 6) ''value expected'') ''value expected'' None]"
  by (simp add: validateQuery_def validateQuery_visit_pair example_symbols_def
      unknown_qualifier_def)

text \<open>
  Claim C3, as amended. A VariableName node visited by the walk of a query yields
  "Unknown variable" exactly when its name resolves to no symbol or to a symbol that is
  not a User symbol, wherever the node stands. A VariableName that is the value of a
  qualifier with a scalar type is checked twice: by the qualifier's rule
  ("Invalid value, expected <type>", unless it is a User symbol of that type) and then,
  when the walk reaches the node itself, by the rule for variable names.
\<close>

theorem variable_name_rule:
  "validateQuery_node sv symbols (VariableNameNode (xs, x)) m =
     (m, if user_type symbols x = None
         then [ValidationError (VariableNameNode (xs, x)) ''Unknown variable'' None] else []) \<and>
   (symbols name = Some (StaticSymbol (Scalar t)) \<longrightarrow>
     fold (validateQuery_visit sv symbols)
       (walk (QualifiedValueNode s (qs, name) (VariableNameNode (xs, x)))) (m, b) =
       (m, b @ (if user_type symbols x = Some t then []
                else [ValidationError (VariableNameNode (xs, x))
                        (''Invalid value, expected '' @ t) None])
             @ (if user_type symbols x = None
                then [ValidationError (VariableNameNode (xs, x)) ''Unknown variable'' None]
                else [])))"
  by (simp add: validateQuery_visit_pair user_type_def split: option.split Symbol.split)

theorem variable_name_rule_witness:
  "validateQuery_node [] example_symbols (VariableNameNode ((7, 9), ''$d'')) Map.empty =
     (Map.empty, []) \<and>
   fold (validateQuery_visit [] example_symbols)
     (walk (QualifiedValueNode (0, 9) ((0, 6), ''author'') (VariableNameNode ((7, 9), ''$d''))))
     (Map.empty, []) =
     (Map.empty,
      [ValidationError (VariableNameNode ((7, 9), ''$d'')) ''Invalid value, expected literal'' None])"
proof -
  have q: "example_symbols ''author'' = Some (StaticSymbol (Scalar ''literal''))"
    by (simp add: example_symbols_def)
  have u: "user_type example_symbols ''$d'' = Some ValueType_Date"
    by (simp add: user_type_def example_symbols_def)
  show ?thesis
    using variable_name_rule [where sv = "[]" and symbols = example_symbols and xs = "(7, 9)"
        and x = "''$d''" and m = Map.empty and name = "''author''" and t = "''literal''"
        and s = "(0, 9)" and qs = "(0, 6)" and b = "[]"] q u
    by (simp add: ValueType_Date_def del: validateQuery_node.simps walk.simps)
qed

text \<open>
  The query \<^verbatim>\<open>author:$me\<close> with no variable \<^verbatim>\<open>$me\<close>: the value node gets the qualifier's
  diagnostic and the diagnostic "Unknown variable" as well.
\<close>

theorem qualifier_variable_two_errors:
  "validateQuery []
     (QueryNode (0, 10)
        [QualifiedValueNode (0, 10) ((0, 6), ''author'') (VariableNameNode ((7, 10), ''$me''))])
     [] example_symbols =
     [ValidationError (VariableNameNode ((7, 10), ''$me'')) ''Invalid value, expected literal'' None,
      ValidationError (VariableNameNode ((7, 10), ''$me'')) ''Unknown variable'' None]"
  by (simp add: validateQuery_def validateQuery_visit_pair example_symbols_def)

text \<open>
  Claim C4, as amended. \<^verbatim>\<open>validateQueryDocument\<close> is a total function that returns its
  diagnostics as a list (the walks are structural recursions over the finite tree and no
  step fails). The length of the list never exceeds the number of callback invocations
  of the inner walks: one for every node of the subtree of each Query node of the
  document, and one for every node of the value subtree of each VariableDefinition node.
  That number is at most the square of the number of nodes; it is at most the number of
  nodes when no top-level node has a Query or a VariableDefinition below it.
\<close>

theorem validateQueryDocument_length_bound:
  "length (validateQueryDocument sv doc symbols) \<le> document_visits doc \<and>
   document_visits doc \<le> (document_size doc)\<^sup>2 \<and>
   ((\<forall>n \<in> set (nodes doc). flat n) \<longrightarrow>
      length (validateQueryDocument sv doc symbols) \<le> document_size doc)"
  using validateQueryDocument_length_visits [of sv doc symbols] document_visits_square [of doc]
    document_visits_flat [of doc]
  by auto

theorem validateQueryDocument_length_bound_witness:
  "length (validateQueryDocument []
     (QueryDocumentNode [QueryNode (0, 14) [is_pr, is_issue]] ''is:pr is:issue'') example_symbols)
     \<le> document_size (QueryDocumentNode [QueryNode (0, 14) [is_pr, is_issue]] ''is:pr is:issue'')"
proof -
  have "\<forall>n \<in> set (nodes (QueryDocumentNode [QueryNode (0, 14) [is_pr, is_issue]] ''is:pr is:issue'')).
          flat n"
    by (simp add: flat_def is_pr_def is_issue_def)
  then show ?thesis
    using validateQueryDocument_length_bound
      [of "[]" "QueryDocumentNode [QueryNode (0, 14) [is_pr, is_issue]] ''is:pr is:issue''"
        example_symbols]
    by blast
qed

text \<open>
  The document \<^verbatim>\<open>$x=$x $x $x $x $x\<close> validated with an empty symbol table has nine nodes
  and ten diagnostics: each reference is reported by the definition checker and again,
  as an unknown variable, by the validation of the query that is the definition's value.
\<close>

theorem diagnostics_exceed_node_count:
  "\<not> length (validateQueryDocument [] self_reference_document Map.empty)
       \<le> document_size self_reference_document"
  by (simp add: validateQueryDocument_def walk_document_def document_size_def
      self_reference_document_def validateQuery_def validateQuery_visit_pair
      validateVariableDefinition_def)

text \<open>
  Claim C5, as amended. For a QualifiedValue whose Static qualifier expects the scalar
  type Date, the qualifier's rule gives no diagnostic exactly when the value is a
  VariableName that resolves to a User symbol of type Date or, not being a VariableName,
  is date-like (a Date node, a Compare whose operand is a Date, a Range with a Date
  boundary); otherwise it gives "Invalid value, expected date" on the value node, so a
  bare Literal always fails. The same holds for Number with "Invalid value, expected
  number".
\<close>

theorem scalar_qualifier_value_rule:
  "(symbols name = Some (StaticSymbol (Scalar ValueType_Date)) \<longrightarrow>
      validateQuery_node sv symbols (QualifiedValueNode s (qs, name) v) m =
        (m, if (case v of VariableNameNode x \<Rightarrow> user_type symbols (snd x) = Some ValueType_Date
                | _ \<Rightarrow> date_like v)
            then [] else [ValidationError v ''Invalid value, expected date'' None]) \<and>
      validateQuery_node sv symbols (QualifiedValueNode s (qs, name) (LiteralNode l)) m =
        (m, [ValidationError (LiteralNode l) ''Invalid value, expected date'' None])) \<and>
   (symbols name = Some (StaticSymbol (Scalar ValueType_Number)) \<longrightarrow>
      validateQuery_node sv symbols (QualifiedValueNode s (qs, name) v) m =
        (m, if (case v of VariableNameNode x \<Rightarrow> user_type symbols (snd x) = Some ValueType_Number
                | _ \<Rightarrow> number_like v)
            then [] else [ValidationError v ''Invalid value, expected number'' None]) \<and>
      validateQuery_node sv symbols (QualifiedValueNode s (qs, name) (LiteralNode l)) m =
        (m, [ValidationError (LiteralNode l) ''Invalid value, expected number'' None]))"
  by (simp add: check_scalar_Date check_scalar_Number del: check_scalar.simps)

theorem scalar_qualifier_value_rule_witness:
  "validateQuery_node [] example_symbols
     (QualifiedValueNode (0, 18) ((0, 7), ''created'')
        (CompareNode (8, 18) ''>'' (DateNode (9, 18)))) Map.empty = (Map.empty, []) \<and>
   validateQuery_node [] example_symbols
     (QualifiedValueNode (0, 18) ((0, 7), ''created'') (LiteralNode ((8, 18), ''yesterday'')))
     Map.empty =
     (Map.empty,
      [ValidationError (LiteralNode ((8, 18), ''yesterday'')) ''Invalid value, expected date'' None])"
proof -
  have q: "example_symbols ''created'' = Some (StaticSymbol (Scalar ValueType_Date))"
    by (simp add: example_symbols_def)
  show ?thesis
    using scalar_qualifier_value_rule [where symbols = example_symbols and name = "''created''"
        and sv = "[]" and s = "(0, 18)" and qs = "(0, 7)" and m = Map.empty
        and v = "CompareNode (8, 18) ''>'' (DateNode (9, 18))" and l = "((8, 18), ''yesterday'')"] q
    by (simp del: validateQuery_node.simps)
qed

text \<open>
  The query \<^verbatim>\<open>created:$d\<close>, where \<^verbatim>\<open>$d\<close> is a variable of type Date: the value passes
  without a diagnostic, and it is neither a Date, nor a Compare, nor a Range.
\<close>

theorem typed_variable_accepted:
  "validateQuery []
     (QueryNode (0, 10)
        [QualifiedValueNode (0, 10) ((0, 7), ''created'') (VariableNameNode ((8, 10), ''$d''))])
     [] example_symbols = [] \<and>
   \<not> isNumberOrDateLike (VariableNameNode ((8, 10), ''$d'')) NodeType_Date"
  by (simp add: validateQuery_def validateQuery_visit_pair example_symbols_def)

text \<open>
  Claim C6, as amended. At a Missing node the callback of \<^verbatim>\<open>validateQuery\<close> emits the
  node's message verbatim, on that node, and applies no other rule; so the message of
  every Missing node in the subtree of a Query node is among the diagnostics of that
  query, and of the document the Query node is in. The rule belongs to the validation
  of queries: in a document without Query nodes no diagnostic is attached to a Missing
  node.
\<close>

theorem missing_node_in_query:
  "validateQuery_node sv symbols (MissingNode s msg) m =
     (m, [ValidationError (MissingNode s msg) msg None]) \<and>
   (MissingNode s msg \<in> set (walk q) \<longrightarrow>
      ValidationError (MissingNode s msg) msg None \<in> set (validateQuery sv q b symbols)) \<and>
   (q \<in> set (walk_document doc) \<and> node_type q = NodeType_Query \<and> MissingNode s msg \<in> set (walk q) \<longrightarrow>
      ValidationError (MissingNode s msg) msg None \<in> set (validateQueryDocument sv doc symbols)) \<and>
   ((\<forall>x \<in> set (walk_document doc). node_type x \<noteq> NodeType_Query) \<longrightarrow>
      (\<forall>e \<in> set (validateQueryDocument sv doc symbols). node_type (node e) \<noteq> NodeType_Missing))"
proof -
  have mem: "ValidationError (MissingNode s msg) msg None \<in> set (validateQuery sv q b symbols)"
    if "MissingNode s msg \<in> set (walk q)" for q b
    unfolding validateQuery_def
    by (rule validateQuery_fold_mem [OF that]) simp
  show ?thesis
    using mem validateQuery_mem_document [of q doc sv symbols]
      validateQueryDocument_no_query [of doc _ sv symbols]
    by auto
qed

theorem missing_node_in_query_witness:
  "ValidationError (MissingNode (3, 3) ''value expected'') ''value expected'' None \<in>
     set (validateQueryDocument []
       (QueryDocumentNode
          [QueryNode (0, 3)
             [QualifiedValueNode (0, 3) ((0, 2), ''is'') (MissingNode (3, 3) ''value expected'')]]
          ''is:'')
       example_symbols)"
proof -
  let ?q = "QueryNode (0, 3)
              [QualifiedValueNode (0, 3) ((0, 2), ''is'') (MissingNode (3, 3) ''value expected'')]"
  have "?q \<in> set (walk_document (QueryDocumentNode [?q] ''is:'')) \<and>
        node_type ?q = NodeType_Query \<and> MissingNode (3, 3) ''value expected'' \<in> set (walk ?q)"
    by (simp add: walk_document_def)
  then show ?thesis
    using missing_node_in_query [of "[]" example_symbols "(3, 3)" "''value expected''" Map.empty
        ?q "[]" "QueryDocumentNode [?q] ''is:''"]
    by blast
qed

text \<open>
  The document \<^verbatim>\<open>$x=\<close>, whose definition has a Missing node as its value: validation
  returns no diagnostic at all.
\<close>

theorem missing_definition_value_silent:
  "validateQueryDocument []
     (QueryDocumentNode
        [VariableDefinitionNode (0, 3) ((0, 2), ''$x'') (MissingNode (3, 3) ''value expected'')]
        ''$x='')
     example_symbols = []"
  by (simp add: validateQueryDocument_def walk_document_def validateVariableDefinition_def)



text \<open>
  Claim C8. The definition checker emits, in the order of the walk of the definition's
  value subtree, "OR is not supported when defining a variable" for each Any node there
  whose token kind is OR, and "Cannot reference a variable from its definition" for each
  VariableName node there whose name is the definition's own name, and nothing else; a
  definition with neither kind of node yields no diagnostic. Every definition node of a
  document is checked so by \<^verbatim>\<open>validateQueryDocument\<close>.
\<close>

theorem validateVariableDefinition_diagnostics:
  "validateVariableDefinition name v bucket =
     bucket @ map definition_error
       (filter (\<lambda>n. is_OR_token n \<or> is_self_reference name n) (walk v)) \<and>
   (filter (\<lambda>n. is_OR_token n \<or> is_self_reference name n) (walk v) = [] \<longrightarrow>
      validateVariableDefinition name v [] = []) \<and>
   (VariableDefinitionNode s name v \<in> set (walk_document doc) \<longrightarrow>
      set (validateVariableDefinition name v []) \<subseteq> set (validateQueryDocument sv doc symbols))"
  using validateVariableDefinition_mem_document [of s name v doc sv symbols]
  by (simp add: validateVariableDefinition_concat validateVariableDefinition_nodes_filter)

theorem validateVariableDefinition_diagnostics_witness:
  "validateVariableDefinition ((0, 2), ''$x'')
     (QueryNode (3, 10)
        [LiteralNode ((3, 4), ''a''), AnyNode (5, 7) TokenType_OR, VariableNameNode ((8, 10), ''$x'')])
     [] =
     [ValidationError (AnyNode (5, 7) TokenType_OR)
        ''OR is not supported when defining a variable'' None,
      ValidationError (VariableNameNode ((8, 10), ''$x''))
        ''Cannot reference a variable from its definition'' None] \<and>
   validateVariableDefinition ((0, 2), ''$x'')
     (QueryNode (3, 10) [LiteralNode ((3, 4), ''a''), VariableNameNode ((5, 7), ''$y'')]) [] = []"
  using validateVariableDefinition_diagnostics [of "((0, 2), ''$x'')"
      "QueryNode (3, 10)
        [LiteralNode ((3, 4), ''a''), AnyNode (5, 7) TokenType_OR, VariableNameNode ((8, 10), ''$x'')]"
      "[]"]
    validateVariableDefinition_diagnostics [of "((0, 2), ''$x'')"
      "QueryNode (3, 10) [LiteralNode ((3, 4), ''a''), VariableNameNode ((5, 7), ''$y'')]" "[]"]
  by (simp add: definition_error_def)

text \<open>
  Claim C9. \<^verbatim>\<open>getRepoInfos\<close> yields what the specification describes: for the
  QualifiedValue nodes of the document in walk order whose qualifier is \<^verbatim>\<open>repo\<close>, the
  resolved string (the value of the symbol a VariableName value resolves to, otherwise
  the printed value subtree) is split at the first \<^verbatim>\<open>/\<close>, and an owner and repo pair of
  the text before and after it is emitted when the separator occurs and not at position
  0; other strings are skipped.
\<close>

theorem getRepoInfos_refines_spec:
  "getRepoInfos print doc symbols = getRepoInfos_spec print doc symbols"
  by (simp add: getRepoInfos_def getRepoInfos_spec_def fold_push nodes_yield)

theorem getRepoInfos_refines_spec_witness:
  "getRepoInfos example_print repo_document example_symbols =
     [RepoInfo ''acme'' ''widgets'', RepoInfo ''acme'' ''gadgets'']"
  by (simp add: getRepoInfos_refines_spec getRepoInfos_spec_def repo_document_def
      walk_document_def split_repo_def example_symbols_def)

text \<open>
  Claim C10, as amended. The document walk calls the definition checker at a
  VariableDefinition node and then goes on into the definition's subtree. When the value
  subtree has no Query and no VariableDefinition node, the definition contributes the
  diagnostics of the definition checker and no other. When the value is a Query node
  (with no Query or VariableDefinition below it), the definition contributes the
  diagnostics of the definition checker followed by those of \<^verbatim>\<open>validateQuery\<close> on that
  Query, so Missing nodes, mismatched Ranges, unknown qualifiers and unknown variables
  in it are reported.
\<close>

theorem definition_dispatch:
  "(plain v \<longrightarrow>
      validateQueryDocument sv (QueryDocumentNode (pre @ VariableDefinitionNode s n v # post) t) symbols =
        validateQueryDocument sv (QueryDocumentNode pre t) symbols @
        validateVariableDefinition n v [] @
        validateQueryDocument sv (QueryDocumentNode post t) symbols) \<and>
   ((\<forall>x \<in> set ns. plain x) \<longrightarrow>
      validateQueryDocument sv
        (QueryDocumentNode (pre @ VariableDefinitionNode s n (QueryNode s' ns) # post) t) symbols =
        validateQueryDocument sv (QueryDocumentNode pre t) symbols @
        validateVariableDefinition n (QueryNode s' ns) [] @
        validateQuery sv (QueryNode s' ns) [] symbols @
        validateQueryDocument sv (QueryDocumentNode post t) symbols)"
proof (intro conjI impI)
  assume p: "plain v"
  show "validateQueryDocument sv (QueryDocumentNode (pre @ VariableDefinitionNode s n v # post) t) symbols =
        validateQueryDocument sv (QueryDocumentNode pre t) symbols @
        validateVariableDefinition n v [] @
        validateQueryDocument sv (QueryDocumentNode post t) symbols"
    by (simp only: validateQueryDocument_split definition_plain_value [OF p])
next
  assume p: "\<forall>x \<in> set ns. plain x"
  have "fold (validateQueryDocument_visit sv symbols)
          (walk (VariableDefinitionNode s n (QueryNode s' ns))) [] =
        validateVariableDefinition n (QueryNode s' ns) [] @ validateQuery sv (QueryNode s' ns) [] symbols"
    using validateQuery_bucket [of sv "QueryNode s' ns" "validateVariableDefinition n (QueryNode s' ns) []" symbols]
    by (simp only: definition_query_value [OF p])
  then show "validateQueryDocument sv
        (QueryDocumentNode (pre @ VariableDefinitionNode s n (QueryNode s' ns) # post) t) symbols =
        validateQueryDocument sv (QueryDocumentNode pre t) symbols @
        validateVariableDefinition n (QueryNode s' ns) [] @
        validateQuery sv (QueryNode s' ns) [] symbols @
        validateQueryDocument sv (QueryDocumentNode post t) symbols"
    by (simp only: validateQueryDocument_split append_assoc)
qed

theorem definition_dispatch_witness:
  "validateQueryDocument []
     (QueryDocumentNode
        [VariableDefinitionNode (0, 9) ((0, 2), ''$x'')
           (QueryNode (3, 9)
              [QualifiedValueNode (3, 9) ((3, 8), ''label'') (MissingNode (9, 9) ''value expected'')])]
        ''$x=label:'')
     example_symbols =
     validateVariableDefinition ((0, 2), ''$x'')
       (QueryNode (3, 9)
          [QualifiedValueNode (3, 9) ((3, 8), ''label'') (MissingNode (9, 9) ''value expected'')]) [] @
     validateQuery []
       (QueryNode (3, 9)
          [QualifiedValueNode (3, 9) ((3, 8), ''label'') (MissingNode (9, 9) ''value expected'')])
       [] example_symbols"
proof -
  have p: "\<forall>x \<in> set [QualifiedValueNode (3, 9) ((3, 8), ''label'')
                       (MissingNode (9, 9) ''value expected'')]. plain x"
    by (simp add: plain_def)
  show ?thesis
    using definition_dispatch [where pre = "[]" and post = "[]" and sv = "[]"
        and symbols = example_symbols and s = "(0, 9)" and n = "((0, 2), ''$x'')" and s' = "(3, 9)"
        and ns = "[QualifiedValueNode (3, 9) ((3, 8), ''label'') (MissingNode (9, 9) ''value expected'')]"
        and t = "''$x=label:''"] p
    by (simp add: validateQueryDocument_Nil)
qed

text \<open>
  The document \<^verbatim>\<open>$x=label:\<close>: the nodes of the definition's value get the diagnostics
  of the query validation, an unknown qualifier and the message of a Missing node.
\<close>

theorem definition_query_value_validated:
  "validateQueryDocument []
     (QueryDocumentNode
        [VariableDefinitionNode (0, 9) ((0, 2), ''$x'')
           (QueryNode (3, 9)
              [QualifiedValueNode (3, 9) ((3, 8), ''label'') (MissingNode (9, 9) ''value expected'')])]
        ''$x=label:'')
     example_symbols =
     [ValidationError (LiteralNode ((3, 8), ''label''))
        (''Unknown qualifier: '' @ quote @ ''label'' @ quote) None,
      ValidationError (MissingNode (9, 9) ''value expected'') ''value expected'' None]"
  by (simp add: validateQueryDocument_def walk_document_def validateVariableDefinition_def
      validateQuery_def validateQuery_visit_pair example_symbols_def unknown_qualifier_def)

end
